theory Spec2Isabelle
  imports Main "HOL-Library.Word" "HOL-Library.Sublist"
begin

section \<open>Python values used by the phase scripts\<close>

subsection \<open>Text\<close>

text \<open>
  A Python \<open>str\<close> is a \<open>string\<close>; a \<open>char\<close> is read as the code point of that
  number, so the model covers text whose code points are below 256.
  \<open>isspace\<close> is \<open>str.isspace\<close> on one such character: tab, line feed, vertical tab,
  form feed, carriage return, the four separators 28 to 31, space, NEL and the
  no-break space.
\<close>

definition isspace :: "char \<Rightarrow> bool" where
  "isspace c = (of_char c \<in> {9, 10, 11, 12, 13, 28, 29, 30, 31, 32, 133, 160 :: nat})"

text \<open>\<open>s.strip()\<close>: the whitespace at both ends removed.\<close>

definition strip :: "string \<Rightarrow> string" where
  "strip s = rev (dropWhile isspace (rev (dropWhile isspace s)))"

text \<open>
  The index of the first occurrence of \<open>sub\<close> in \<open>s\<close>, if there is one. The empty
  text occurs at index 0 of every text, also of the empty one.
\<close>

fun find_sub :: "string \<Rightarrow> string \<Rightarrow> nat option" where
  "find_sub sub [] = (if sub = [] then Some 0 else None)"
| "find_sub sub (c # cs) =
     (if prefix sub (c # cs) then Some 0 else map_option Suc (find_sub sub cs))"

text \<open>\<open>sub in s\<close>.\<close>

definition py_in :: "string \<Rightarrow> string \<Rightarrow> bool" where
  "py_in sub s = (find_sub sub s \<noteq> None)"

text \<open>
  A slice bound of Python, clamped to the text: a negative bound counts from the end.
\<close>

definition slice_index :: "string \<Rightarrow> int \<Rightarrow> nat" where
  "slice_index s i =
     (if i < 0 then nat (max 0 (i + int (length s))) else min (nat i) (length s))"

text \<open>
  \<open>s.find(sub, start)\<close>: the lowest index at or after \<open>start\<close> where \<open>sub\<close> occurs,
  and \<open>-1\<close> when there is none or \<open>start\<close> lies beyond the end.
\<close>

definition py_find :: "string \<Rightarrow> string \<Rightarrow> int \<Rightarrow> int" where
  "py_find s sub start =
     (if int (length s) < start then - 1
      else let k = slice_index s start in
        case find_sub sub (drop k s) of
          None \<Rightarrow> - 1
        | Some i \<Rightarrow> int (k + i))"

text \<open>\<open>s[start:end]\<close>.\<close>

definition py_slice :: "string \<Rightarrow> int \<Rightarrow> int \<Rightarrow> string" where
  "py_slice s start endi =
     (let a = slice_index s start; b = slice_index s endi in take (b - a) (drop a s))"

text \<open>\<open>str(n)\<close> of an integer: its decimal digits, with a sign when negative.\<close>

fun show_nat :: "nat \<Rightarrow> string" where
  "show_nat n =
     (if n < 10 then [char_of (48 + n)]
      else show_nat (n div 10) @ [char_of (48 + n mod 10)])"

definition show_int :: "int \<Rightarrow> string" where
  "show_int i = (if i < 0 then CHR ''-'' # show_nat (nat (- i)) else show_nat (nat i))"

text \<open>An optional text inside an f-string: \<open>None\<close> prints as the word None.\<close>

definition fmt_opt :: "string option \<Rightarrow> string" where
  "fmt_opt x = (case x of None \<Rightarrow> ''None'' | Some s \<Rightarrow> s)"

text \<open>Truth value of an optional text: \<open>None\<close> and the empty text are false.\<close>

definition truthy_opt :: "string option \<Rightarrow> bool" where
  "truthy_opt x = (case x of None \<Rightarrow> False | Some s \<Rightarrow> s \<noteq> [])"

text \<open>
  \<open>os.path.join\<close> of POSIX: a component that starts with the separator replaces what
  came before; otherwise it is appended, after a separator unless the path so far is
  empty or ends with one.
\<close>

definition join2 :: "string \<Rightarrow> string \<Rightarrow> string" where
  "join2 path b =
     (if prefix ''/'' b then b
      else if path = [] \<or> suffix ''/'' path then path @ b
      else path @ ''/'' @ b)"

definition path_join :: "string \<Rightarrow> string list \<Rightarrow> string" where
  "path_join a ps = foldl join2 a ps"

subsection \<open>JSON documents\<close>

text \<open>
  What \<open>json.loads\<close> returns: \<open>None\<close>, a bool, an unbounded int, a float (its 64
  bits), a str, a list, or a dict, kept as an association list in which the first entry
  of a key is the one in force.
\<close>

datatype json =
    JNull
  | JBool bool
  | JInt int
  | JFloat "64 word"
  | JStr string
  | JArr "json list"
  | JObj "(string \<times> json) list"

text \<open>
  The exceptions of a review: those the script raises on a document of the wrong shape,
  and those \<open>json.loads\<close> raises, a \<open>JSONDecodeError\<close> with its message for a
  text that is no JSON, a plain \<open>ValueError\<close> for an integer of too many digits and a
  \<open>RecursionError\<close> for a text nested too deeply.
\<close>

datatype exn =
    KeyError string
  | AttributeError
  | TypeError
  | JSONDecodeError string
  | ValueError
  | RecursionError

text \<open>\<open>x.get(k)\<close>: only a dict has \<open>get\<close>.\<close>

definition json_get :: "json \<Rightarrow> string \<Rightarrow> exn + json option" where
  "json_get x k = (case x of JObj kvs \<Rightarrow> Inr (map_of kvs k) | _ \<Rightarrow> Inl AttributeError)"

text \<open>\<open>x[k]\<close> on a dict: a missing key raises.\<close>

definition dict_item :: "(string \<times> json) list \<Rightarrow> string \<Rightarrow> exn + json" where
  "dict_item kvs k = (case map_of kvs k of None \<Rightarrow> Inl (KeyError k) | Some v \<Rightarrow> Inr v)"

text \<open>
  \<open>for x in v\<close>: a list gives its elements, a dict its keys, a str its characters;
  nothing else can be iterated.
\<close>

definition json_iter :: "json \<Rightarrow> exn + json list" where
  "json_iter v =
     (case v of
        JArr xs \<Rightarrow> Inr xs
      | JObj kvs \<Rightarrow> Inr (map (\<lambda>kv. JStr (fst kv)) kvs)
      | JStr s \<Rightarrow> Inr (map (\<lambda>c. JStr [c]) s)
      | _ \<Rightarrow> Inl TypeError)"

text \<open>Truth value of a document: zero, the empty containers, False and None are false.\<close>

definition json_truthy :: "json \<Rightarrow> bool" where
  "json_truthy v =
     (case v of
        JNull \<Rightarrow> False
      | JBool b \<Rightarrow> b
      | JInt i \<Rightarrow> i \<noteq> 0
      | JFloat w \<Rightarrow> take_bit 63 w \<noteq> 0
      | JStr s \<Rightarrow> s \<noteq> []
      | JArr xs \<Rightarrow> xs \<noteq> []
      | JObj kvs \<Rightarrow> kvs \<noteq> [])"

section \<open>The run state and the collaborators\<close>

text \<open>
  Modelled from the spec: \<open>ADWState\<close> (\<open>adw_modules/state.py\<close> lies outside the
  phase scripts). The phase scripts read it with \<open>get\<close>, write it with \<open>update\<close> and
  persist it with \<open>save\<close>; the keys they use are the fields below, each absent until
  set, except the run identifier the constructor takes.
\<close>

record adw_state =
  st_adw_id :: string
  st_issue_number :: "string option"
  st_branch_name :: "string option"
  st_worktree_path :: "string option"
  st_backend_port :: "int option"
  st_frontend_port :: "int option"
  st_plan_file :: "string option"
  st_issue_class :: "string option"

text \<open>\<open>ADWState(adw_id)\<close>: a state that holds the run identifier and nothing else.\<close>

definition new_state :: "string \<Rightarrow> adw_state" where
  "new_state a =
     \<lparr>st_adw_id = a, st_issue_number = None, st_branch_name = None,
      st_worktree_path = None, st_backend_port = None, st_frontend_port = None,
      st_plan_file = None, st_issue_class = None\<rparr>"

text \<open>\<open>AgentTemplateRequest\<close> and the response of an agent call.\<close>

record agent_template_request =
  agent_name :: string
  slash_command :: string
  args :: "string list"
  req_adw_id :: string
  working_dir :: "string option"

record agent_response =
  resp_output :: string
  success :: bool

text \<open>
  The keyword arguments of one \<open>create_and_implement_patch\<close> call. The request and
  the screenshots are documents; Python's \<open>None\<close> is the document \<open>null\<close>.
\<close>

record patch_request =
  patch_adw_id :: string
  review_change_request :: json
  agent_name_planner :: string
  agent_name_implementor :: string
  spec_path :: string
  issue_screenshots :: json
  patch_working_dir :: "string option"

text \<open>
  What a phase does that can be seen from outside, in the order it happens: the log
  lines of its own logger, the lines it prints, the worktree validation with its verdict,
  the calls that reach the agent, the saves of the state under a phase label, an
  exception nobody catches, and the calls the planning phase makes to fetch the issue,
  name the branch, create the worktree and reserve the ports.
\<close>

datatype level = INFO | WARNING | ERROR

datatype event =
    Log level string
  | Print string
  | ValidateWorktree string bool
  | ExecuteTemplate agent_template_request
  | ImplementPlan string string string "string option"
  | CreatePatch patch_request
  | Save string adw_state
  | Uncaught exn
  | FetchIssue string
  | UpdateBeadsStatus string string
  | ClassifyIssue string
  | GenerateBranchName string
  | CreateWorktree string "string option"
  | AllocatePorts string
  | BuildPlan string string "string option"

text \<open>The events that are calls to the agent.\<close>

fun is_agent_call :: "event \<Rightarrow> bool" where
  "is_agent_call (ExecuteTemplate r) = True"
| "is_agent_call (ImplementPlan s a n w) = True"
| "is_agent_call (CreatePatch p) = True"
| "is_agent_call (ClassifyIssue a) = True"
| "is_agent_call (GenerateBranchName a) = True"
| "is_agent_call (BuildPlan c a w) = True"
| "is_agent_call e = False"

fun is_patch_call :: "event \<Rightarrow> bool" where
  "is_patch_call (CreatePatch p) = True"
| "is_patch_call e = False"

text \<open>
  The collaborators of the build, test, review and document phases, all defined
  outside the phase scripts; each is a parameter. A phase calls each of them at most
  once, except \<open>create_and_implement_patch\<close>, which also receives the number of patch
  calls already made in this invocation, so that its answers may differ from call to call.
  \<open>json_loads\<close> is \<open>json.loads\<close>, which returns a document or raises; \<open>py_str\<close>
  is \<open>str\<close> on a document that is not a text; \<open>project_root\<close> is the directory three
  levels above the script.
\<close>

record env =
  load :: "string \<Rightarrow> adw_state option"
  validate_worktree :: "string \<Rightarrow> adw_state \<Rightarrow> bool \<times> string option"
  find_spec_file :: "adw_state \<Rightarrow> string option"
  implement_plan :: "string \<Rightarrow> string \<Rightarrow> string \<Rightarrow> string option \<Rightarrow> agent_response"
  execute_template :: "agent_template_request \<Rightarrow> agent_response"
  create_and_implement_patch :: "nat \<Rightarrow> patch_request \<Rightarrow> string option \<times> agent_response"
  json_loads :: "string \<Rightarrow> exn + json"
  py_str :: "json \<Rightarrow> string"
  path_exists :: "string \<Rightarrow> bool"
  project_root :: string

text \<open>A finished invocation: what it did, and the exit status of the process.\<close>

type_synonym outcome = "event list \<times> nat"

section \<open>The build phase\<close>

definition build_usage :: "event list" where
  "build_usage =
     [Print ''Usage: uv run adw_build_iso.py <issue-number> <adw-id>'',
      Print (CHR 0x0A # ''This runs the isolated implementation phase:''),
      Print ''  1. Load ADW state'',
      Print ''  2. Validate worktree'',
      Print ''  3. Find spec file'',
      Print ''  4. Implement plan'']"

text \<open>
  \<open>main\<close> is written in two parts: the phase for a given run identifier, and the
  reading of the command line in front of it.
\<close>

definition build_phase :: "env \<Rightarrow> string \<Rightarrow> outcome" where
  "build_phase E adw =
       (case load E adw of
          None \<Rightarrow> ([Log ERROR (''No state found for ADW ID: '' @ adw)], 1)
        | Some state \<Rightarrow>
            let (valid, error) = validate_worktree E adw state;
                t1 = [Log INFO ''Validating worktree'', ValidateWorktree adw valid] in
            if \<not> valid then
              (t1 @ [Log ERROR (''Worktree validation failed: '' @ fmt_opt error)], 1)
            else
              let worktree_path = st_worktree_path state;
                  t2 = t1 @ [Log INFO (''Using worktree: '' @ fmt_opt worktree_path)];
                  spec_file = find_spec_file E state in
              if \<not> truthy_opt spec_file then (t2 @ [Log ERROR ''No spec file found''], 1)
              else
                let spec = the spec_file;
                    t3 = t2 @ [Log INFO (''Using spec file: '' @ spec),
                               Log INFO ''Implementing plan'',
                               ImplementPlan spec adw ''build_implementor'' worktree_path];
                    implement_response =
                      implement_plan E spec adw ''build_implementor'' worktree_path in
                if \<not> success implement_response then
                  (t3 @ [Log ERROR (''Implementation failed: '' @ resp_output implement_response)], 1)
                else
                  (t3 @ [Log INFO ''Implementation completed successfully'',
                         Save ''adw_build_iso'' state,
                         Print (CHR 0x0A # ''=== ISOLATED BUILD PHASE COMPLETED ===''),
                         Print (''ADW ID: '' @ adw),
                         Print (''Worktree: '' @ fmt_opt worktree_path),
                         Print (''Spec file: '' @ spec)], 0))"

definition build_main :: "env \<Rightarrow> string list \<Rightarrow> outcome" where
  "build_main E argv =
     (if length argv < 3 then (build_usage, 1)
      else let issue_number = argv ! 1; adw = argv ! 2 in build_phase E adw)"

section \<open>The test phase\<close>

definition test_usage :: "event list" where
  "test_usage =
     [Print ''Usage: uv run adw_test_iso.py <issue-number> <adw-id> [--skip-e2e]'',
      Print (CHR 0x0A # ''This runs the isolated testing phase:''),
      Print ''  1. Load ADW state'',
      Print ''  2. Validate worktree'',
      Print ''  3. Run tests'',
      Print (CHR 0x0A # ''Flags:''),
      Print ''  --skip-e2e: Skip end-to-end tests'']"

definition test_request :: "string \<Rightarrow> string option \<Rightarrow> agent_template_request" where
  "test_request adw worktree_path =
     \<lparr>agent_name = ''test_validator'', slash_command = ''/test'', args = [],
      req_adw_id = adw, working_dir = worktree_path\<rparr>"

definition test_phase :: "env \<Rightarrow> bool \<Rightarrow> string \<Rightarrow> outcome" where
  "test_phase E skip_e2e adw =
       (case load E adw of
          None \<Rightarrow> ([Log ERROR (''No state found for ADW ID: '' @ adw)], 1)
        | Some state \<Rightarrow>
            let (valid, error) = validate_worktree E adw state;
                t1 = [Log INFO ''Validating worktree'', ValidateWorktree adw valid] in
            if \<not> valid then
              (t1 @ [Log ERROR (''Worktree validation failed: '' @ fmt_opt error)], 1)
            else
              let worktree_path = st_worktree_path state;
                  t2 = t1 @ [Log INFO (''Using worktree: '' @ fmt_opt worktree_path),
                             Log INFO ''Running test suite'',
                             ExecuteTemplate (test_request adw worktree_path)];
                  test_response = execute_template E (test_request adw worktree_path);
                  t3 = t2 @ [if \<not> success test_response
                             then Log WARNING (''Tests had failures: '' @ resp_output test_response)
                             else Log INFO ''All tests passed'',
                             Save ''adw_test_iso'' state,
                             Print (CHR 0x0A # ''=== ISOLATED TEST PHASE COMPLETED ===''),
                             Print (''ADW ID: '' @ adw),
                             Print (''Worktree: '' @ fmt_opt worktree_path)]
                          @ (if skip_e2e then [Print ''E2E tests: Skipped''] else []) in
              (t3, if success test_response then 0 else 1))"

text \<open>
  The command line without a flag the script knows: \<open>sys.argv.remove\<close> takes out
  its first occurrence, when there is one.
\<close>

definition remove_flag :: "string \<Rightarrow> string list \<Rightarrow> string list" where
  "remove_flag flag argv = (if flag \<in> set argv then remove1 flag argv else argv)"

definition test_main :: "env \<Rightarrow> string list \<Rightarrow> outcome" where
  "test_main E argv0 =
     (let skip_e2e = (''--skip-e2e'' \<in> set argv0);
          argv = remove_flag ''--skip-e2e'' argv0 in
      if length argv < 3 then (test_usage, 1)
      else let issue_number = argv ! 1; adw = argv ! 2 in test_phase E skip_e2e adw)"

section \<open>The documentation phase\<close>

definition document_usage :: "event list" where
  "document_usage =
     [Print ''Usage: uv run adw_document_iso.py <issue-number> <adw-id>'',
      Print (CHR 0x0A # ''This runs the isolated documentation phase:''),
      Print ''  1. Load ADW state'',
      Print ''  2. Validate worktree'',
      Print ''  3. Find spec file'',
      Print ''  4. Generate documentation'']"

definition doc_request ::
  "string \<Rightarrow> string \<Rightarrow> string \<Rightarrow> string option \<Rightarrow> agent_template_request" where
  "doc_request adw spec_file review_img_dir worktree_path =
     \<lparr>agent_name = ''documentation_writer'', slash_command = ''/document'',
      args = [adw, spec_file, review_img_dir],
      req_adw_id = adw, working_dir = worktree_path\<rparr>"

text \<open>The directory where the review phase of the run leaves its screenshots.\<close>

definition review_img_path :: "env \<Rightarrow> string \<Rightarrow> string" where
  "review_img_path E adw =
     path_join (project_root E) [''agents'', adw, ''review_agent'', ''review_img'']"

definition document_phase :: "env \<Rightarrow> string \<Rightarrow> outcome" where
  "document_phase E adw =
       (case load E adw of
          None \<Rightarrow> ([Log ERROR (''No state found for ADW ID: '' @ adw)], 1)
        | Some state \<Rightarrow>
            let (valid, error) = validate_worktree E adw state;
                t1 = [Log INFO ''Validating worktree'', ValidateWorktree adw valid] in
            if \<not> valid then
              (t1 @ [Log ERROR (''Worktree validation failed: '' @ fmt_opt error)], 1)
            else
              let worktree_path = st_worktree_path state;
                  t2 = t1 @ [Log INFO (''Using worktree: '' @ fmt_opt worktree_path)];
                  found = find_spec_file E state;
                  t3 = t2 @ (if \<not> truthy_opt found
                             then [Log WARNING
                                     ''No spec file found, documenting without spec reference'']
                             else []);
                  spec_file = (if \<not> truthy_opt found then [] else the found);
                  img = review_img_path E adw;
                  t4 = t3 @ [if \<not> path_exists E img
                             then Log INFO ''No review screenshots found''
                             else Log INFO (''Found review screenshots at: '' @ img)];
                  review_img_dir = (if \<not> path_exists E img then [] else img);
                  rq = doc_request adw spec_file review_img_dir worktree_path;
                  t5 = t4 @ [Log INFO ''Generating documentation'', ExecuteTemplate rq];
                  doc_response = execute_template E rq in
              if \<not> success doc_response then
                (t5 @ [Log ERROR (''Documentation generation failed: ''
                                   @ resp_output doc_response)], 1)
              else
                let doc_file = strip (resp_output doc_response) in
                (t5 @ [Log INFO (''Documentation created: '' @ doc_file),
                       Save ''adw_document_iso'' state,
                       Print (CHR 0x0A # ''=== ISOLATED DOCUMENTATION PHASE COMPLETED ===''),
                       Print (''ADW ID: '' @ adw),
                       Print (''Worktree: '' @ fmt_opt worktree_path),
                       Print (''Documentation: '' @ doc_file)], 0))"

definition document_main :: "env \<Rightarrow> string list \<Rightarrow> outcome" where
  "document_main E argv =
     (if length argv < 3 then (document_usage, 1)
      else let issue_number = argv ! 1; adw = argv ! 2 in document_phase E adw)"

section \<open>The review phase\<close>

definition review_usage :: "event list" where
  "review_usage =
     [Print ''Usage: uv run adw_review_iso.py <issue-number> <adw-id> [--skip-resolution]'',
      Print (CHR 0x0A # ''This runs the isolated review phase:''),
      Print ''  1. Load ADW state'',
      Print ''  2. Validate worktree'',
      Print ''  3. Review implementation'',
      Print ''  4. Resolve issues (unless --skip-resolution)'',
      Print (CHR 0x0A # ''Flags:''),
      Print ''  --skip-resolution: Skip automatic issue resolution'']"

definition review_request ::
  "string \<Rightarrow> string \<Rightarrow> string option \<Rightarrow> agent_template_request" where
  "review_request adw spec_file worktree_path =
     \<lparr>agent_name = ''review_agent'', slash_command = ''/review'',
      args = [adw, spec_file, ''review_agent''],
      req_adw_id = adw, working_dir = worktree_path\<rparr>"

text \<open>
  The text handed to \<open>json.loads\<close>: the agent's output without its outer whitespace
  and, when a fence is found, cut down to what stands between the fence and the next one.
\<close>

definition review_extract :: "string \<Rightarrow> string" where
  "review_extract raw =
     (let out = strip raw in
      if py_in ''```json'' out then
        let start = py_find out ''```json'' 0 + 7;
            endi = py_find out ''```'' start in
        if endi \<noteq> - 1 then strip (py_slice out start endi) else out
      else if py_in ''```'' out \<and> py_in ''{'' out then
        let start0 = py_find out ''```'' 0 + 3;
            newline = py_find out [CHR 0x0A] start0;
            start = (if newline \<noteq> - 1 then newline + 1 else start0);
            endi = py_find out ''```'' start in
        if endi \<noteq> - 1 then strip (py_slice out start endi) else out
      else out)"

text \<open>
  The list comprehension that keeps the findings whose severity is \<open>blocker\<close>: every
  element is asked for its severity, so one element that is no dict raises.
\<close>

fun blocking_filter :: "json list \<Rightarrow> exn + json list" where
  "blocking_filter [] = Inr []"
| "blocking_filter (issue # rest) =
     (case json_get issue ''issue_severity'' of
        Inl e \<Rightarrow> Inl e
      | Inr sev \<Rightarrow>
          (case blocking_filter rest of
             Inl e \<Rightarrow> Inl e
           | Inr bs \<Rightarrow> Inr (if sev = Some (JStr ''blocker'') then issue # bs else bs)))"

definition blocking_issues_of :: "(string \<times> json) list \<Rightarrow> exn + json list" where
  "blocking_issues_of review_results =
     (case map_of review_results ''review_issues'' of
        None \<Rightarrow> Inr []
      | Some v \<Rightarrow> (case json_iter v of Inl e \<Rightarrow> Inl e | Inr xs \<Rightarrow> blocking_filter xs))"

text \<open>A value inside an f-string: a text as it is, anything else through \<open>str\<close>.\<close>

definition fmt_json :: "env \<Rightarrow> json \<Rightarrow> string" where
  "fmt_json E v = (case v of JStr s \<Rightarrow> s | _ \<Rightarrow> py_str E v)"

text \<open>\<open>issue[k]\<close> for a finding that passed the filter (a dict).\<close>

definition issue_item :: "json \<Rightarrow> string \<Rightarrow> exn + json" where
  "issue_item issue k =
     (case issue of JObj kvs \<Rightarrow> dict_item kvs k | _ \<Rightarrow> Inl TypeError)"

definition patch_request_of ::
  "string \<Rightarrow> string \<Rightarrow> string option \<Rightarrow> json \<Rightarrow> json \<Rightarrow> patch_request" where
  "patch_request_of adw spec_file worktree_path issue resolution =
     \<lparr>patch_adw_id = adw, review_change_request = resolution,
      agent_name_planner = ''review_patch_planner'',
      agent_name_implementor = ''review_patch_implementor'',
      spec_path = spec_file,
      issue_screenshots =
        (case json_get issue ''screenshot_path'' of
           Inr (Some v) \<Rightarrow> v
         | _ \<Rightarrow> JNull),
      patch_working_dir = worktree_path\<rparr>"

text \<open>
  The resolution loop over the blocking findings, \<open>n\<close> patch calls having been made
  before. The result is the events of the loop and, when the loop ended the process, the
  exit status.
\<close>

fun resolve_issues ::
  "env \<Rightarrow> string \<Rightarrow> string \<Rightarrow> string option \<Rightarrow> nat \<Rightarrow> json list \<Rightarrow>
     event list \<times> nat option" where
  "resolve_issues E adw spec_file worktree_path n [] = ([], None)"
| "resolve_issues E adw spec_file worktree_path n (issue # rest) =
     (case issue_item issue ''review_issue_number'' of
        Inl e \<Rightarrow> ([Uncaught e], Some 1)
      | Inr num \<Rightarrow>
     (case issue_item issue ''issue_description'' of
        Inl e \<Rightarrow> ([Uncaught e], Some 1)
      | Inr descr \<Rightarrow>
     (let t1 = [Log INFO (''Resolving issue '' @ fmt_json E num @ '': '' @ fmt_json E descr)] in
      case issue_item issue ''issue_resolution'' of
        Inl e \<Rightarrow> (t1 @ [Uncaught e], Some 1)
      | Inr resolution \<Rightarrow>
     (let rq = patch_request_of adw spec_file worktree_path issue resolution;
          patch_response = snd (create_and_implement_patch E n rq);
          t2 = t1 @ [CreatePatch rq] in
      if \<not> success patch_response then
        (t2 @ [Log ERROR (''Failed to resolve issue: '' @ resp_output patch_response)], Some 1)
      else
        (let t3 = t2 @ [Log INFO (''Resolved issue '' @ fmt_json E num)];
             r = resolve_issues E adw spec_file worktree_path (Suc n) rest
         in (t3 @ fst r, snd r))))))"

text \<open>
  The error lines of the skipped resolution: one per blocking finding, until a finding
  without a description raises.
\<close>

fun skipped_lines :: "env \<Rightarrow> json list \<Rightarrow> event list" where
  "skipped_lines E [] = []"
| "skipped_lines E (issue # rest) =
     (case issue_item issue ''issue_description'' of
        Inl e \<Rightarrow> [Uncaught e]
      | Inr descr \<Rightarrow> Log ERROR (''  - '' @ fmt_json E descr) # skipped_lines E rest)"

text \<open>
  What the review phase does with the blocking findings: the resolution loop, the abort
  of the skipped resolution, or nothing when there are none.
\<close>

definition handle_blocking ::
  "env \<Rightarrow> bool \<Rightarrow> string \<Rightarrow> string \<Rightarrow> string option \<Rightarrow> json list \<Rightarrow>
     event list \<times> nat option" where
  "handle_blocking E skip_resolution adw spec_file worktree_path blocking_issues =
     (let count = show_nat (length blocking_issues) in
      if blocking_issues \<noteq> [] \<and> \<not> skip_resolution then
        (let r = resolve_issues E adw spec_file worktree_path 0 blocking_issues in
         (Log WARNING (''Found '' @ count @ '' blocking issues, attempting resolution'')
            # fst r, snd r))
      else if blocking_issues \<noteq> [] then
        (Log ERROR (''Found '' @ count @ '' blocking issues (resolution skipped)'')
           # skipped_lines E blocking_issues, Some 1)
      else ([], None))"

text \<open>
  The body of the \<open>try\<close> block once \<open>json.loads\<close> has returned: the summary line,
  the blocking findings, their resolution or the abort, the save and the report.
\<close>

definition review_results_body ::
  "env \<Rightarrow> bool \<Rightarrow> string \<Rightarrow> string \<Rightarrow> adw_state \<Rightarrow> json \<Rightarrow> outcome" where
  "review_results_body E skip_resolution adw spec_file state review_results =
     (let worktree_path = st_worktree_path state in
      case review_results of
        JObj kvs \<Rightarrow>
          (let summary = (case map_of kvs ''review_summary'' of
                            None \<Rightarrow> ''No summary'' | Some v \<Rightarrow> fmt_json E v);
               t1 = [Log INFO (''Review completed: '' @ summary)] in
           case blocking_issues_of kvs of
             Inl e \<Rightarrow> (t1 @ [Uncaught e], 1)
           | Inr blocking_issues \<Rightarrow>
               (let h = handle_blocking E skip_resolution adw spec_file worktree_path
                          blocking_issues in
                case snd h of
                  Some code \<Rightarrow> (t1 @ fst h, code)
                | None \<Rightarrow>
                    (t1 @ fst h @
                     [Save ''adw_review_iso'' state,
                      Print (CHR 0x0A # ''=== ISOLATED REVIEW PHASE COMPLETED ===''),
                      Print (''ADW ID: '' @ adw),
                      Print (''Worktree: '' @ fmt_opt worktree_path),
                      Print (''Review: '' @
                        (if (case map_of kvs ''success'' of
                               None \<Rightarrow> False | Some v \<Rightarrow> json_truthy v)
                         then ''Success'' else ''Has issues'')),
                      Print (''Blocking issues: '' @ show_nat (length blocking_issues))]
                     @ (if skip_resolution \<and> blocking_issues \<noteq> []
                        then [Print ''Resolution: Skipped''] else []), 0)))
      | _ \<Rightarrow> ([Uncaught AttributeError], 1))"

definition review_phase :: "env \<Rightarrow> bool \<Rightarrow> string \<Rightarrow> outcome" where
  "review_phase E skip_resolution adw =
       (case load E adw of
          None \<Rightarrow> ([Log ERROR (''No state found for ADW ID: '' @ adw)], 1)
        | Some state \<Rightarrow>
            let (valid, error) = validate_worktree E adw state;
                t1 = [Log INFO ''Validating worktree'', ValidateWorktree adw valid] in
            if \<not> valid then
              (t1 @ [Log ERROR (''Worktree validation failed: '' @ fmt_opt error)], 1)
            else
              let worktree_path = st_worktree_path state;
                  t2 = t1 @ [Log INFO (''Using worktree: '' @ fmt_opt worktree_path)];
                  found = find_spec_file E state in
              if \<not> truthy_opt found then (t2 @ [Log ERROR ''No spec file found''], 1)
              else
                let spec_file = the found;
                    rq = review_request adw spec_file worktree_path;
                    t3 = t2 @ [Log INFO (''Using spec file: '' @ spec_file),
                               Log INFO ''Running review'', ExecuteTemplate rq];
                    review_response = execute_template E rq in
                if \<not> success review_response then
                  (t3 @ [Log ERROR (''Review failed to execute: ''
                                     @ resp_output review_response)], 1)
                else
                  (case json_loads E (review_extract (resp_output review_response)) of
                     Inl e \<Rightarrow>
                       (case e of
                          JSONDecodeError msg \<Rightarrow>
                            (t3 @ [Log ERROR (''Failed to parse review results: '' @ msg),
                                   Log ERROR (''Review output: ''
                                               @ resp_output review_response)], 1)
                        | _ \<Rightarrow> (t3 @ [Uncaught e], 1))
                   | Inr review_results \<Rightarrow>
                       (let r = review_results_body E skip_resolution adw spec_file
                                  state review_results
                        in (t3 @ fst r, snd r))))"

definition review_main :: "env \<Rightarrow> string list \<Rightarrow> outcome" where
  "review_main E argv0 =
     (let skip_resolution = (''--skip-resolution'' \<in> set argv0);
          argv = remove_flag ''--skip-resolution'' argv0 in
      if length argv < 3 then (review_usage, 1)
      else let issue_number = argv ! 1; adw = argv ! 2
           in review_phase E skip_resolution adw)"

section \<open>The planning phase\<close>

text \<open>
  The issue as the planning phase sees it: it reads the title and hands the rest on.
\<close>

record issue =
  title :: string
  body :: string

text \<open>
  The collaborators only the planning phase has, again parameters. Where the script
  unpacks a pair of a result and an error, the model has the pair; the worktree path and
  the ports are used as a text and as integers and are typed so.
\<close>

record plan_env =
  ensure_adw_id :: "string \<Rightarrow> string option \<Rightarrow> string"
  is_beads_issue :: "string \<Rightarrow> bool"
  fetch_issue_unified :: "string \<Rightarrow> issue option \<times> string option"
  update_beads_status :: "string \<Rightarrow> string \<Rightarrow> bool \<times> string option"
  classify_issue :: "issue \<Rightarrow> string \<Rightarrow> string option \<times> string option"
  generate_branch_name ::
    "issue \<Rightarrow> string option \<Rightarrow> string \<Rightarrow> string option \<times> string option"
  create_worktree :: "string \<Rightarrow> string option \<Rightarrow> string \<times> string option"
  find_next_available_ports :: "string \<Rightarrow> int \<times> int"
  build_plan :: "issue \<Rightarrow> string \<Rightarrow> string \<Rightarrow> string option \<Rightarrow> agent_response"

definition plan_usage :: "event list" where
  "plan_usage =
     [Print ''Usage: uv run adw_plan_iso.py <issue-number> [adw-id]'',
      Print (CHR 0x0A # ''This runs the isolated planning phase:''),
      Print ''  1. Load/create ADW state'',
      Print ''  2. Fetch GitHub issue'',
      Print ''  3. Create/find branch'',
      Print ''  4. Create isolated worktree'',
      Print ''  5. Generate plan'']"

text \<open>
  \<open>\w\<close> on one character: a letter, a digit, a numeric character or the underscore.
\<close>

definition is_word :: "char \<Rightarrow> bool" where
  "is_word c =
     (let n = (of_char c :: nat) in
      (48 \<le> n \<and> n \<le> 57) \<or> (65 \<le> n \<and> n \<le> 90) \<or> n = 95 \<or> (97 \<le> n \<and> n \<le> 122)
      \<or> n \<in> {170, 178, 179, 181, 185, 186, 188, 189, 190}
      \<or> (192 \<le> n \<and> n \<le> 214) \<or> (216 \<le> n \<and> n \<le> 246) \<or> 248 \<le> n)"

definition is_name_char :: "char \<Rightarrow> bool" where
  "is_name_char c = (is_word c \<or> c = CHR ''-'')"

text \<open>
  The pattern \<open>specs/[\w-]+\.md\<close> matched at the start of a text. The run of name
  characters is taken whole: a shorter run would have to be followed by a dot where a
  name character stands.
\<close>

definition match_plan_at :: "string \<Rightarrow> string option" where
  "match_plan_at s =
     (if prefix ''specs/'' s then
        let rest = drop 6 s;
            name = takeWhile is_name_char rest;
            after = dropWhile is_name_char rest in
        if name \<noteq> [] \<and> prefix ''.md'' after then Some (''specs/'' @ name @ ''.md'')
        else None
      else None)"

text \<open>\<open>re.search\<close> with that pattern: the leftmost match, if any.\<close>

fun search_plan_file :: "string \<Rightarrow> string option" where
  "search_plan_file [] = None"
| "search_plan_file (c # cs) =
     (case match_plan_at (c # cs) of
        Some m \<Rightarrow> Some m
      | None \<Rightarrow> search_plan_file cs)"

text \<open>The plan file the phase records: the match, or else the whole response.\<close>

definition plan_file_of :: "string \<Rightarrow> string" where
  "plan_file_of out =
     (case search_plan_file out of Some m \<Rightarrow> m | None \<Rightarrow> strip out)"

definition install_request :: "string \<Rightarrow> string \<Rightarrow> int \<Rightarrow> int \<Rightarrow> agent_template_request" where
  "install_request adw worktree_path backend_port frontend_port =
     \<lparr>agent_name = ''worktree_installer'', slash_command = ''/install_worktree'',
      args = [worktree_path, show_int backend_port, show_int frontend_port],
      req_adw_id = adw, working_dir = None\<rparr>"

text \<open>
  The branch name: the one in the state, or a new one from the classification of the
  issue. The result is the events and either the exit status or the state and the name.
\<close>

definition plan_branch ::
  "plan_env \<Rightarrow> string \<Rightarrow> issue \<Rightarrow> adw_state \<Rightarrow>
     event list \<times> (nat + adw_state \<times> string option)" where
  "plan_branch P adw iss state =
     (if truthy_opt (st_branch_name state) then ([], Inr (state, st_branch_name state))
      else
        let t1 = [Log INFO ''Classifying issue to determine branch type'',
                  ClassifyIssue adw];
            (issue_command, error) = classify_issue P iss adw in
        if truthy_opt error then
          (t1 @ [Log ERROR (''Failed to classify issue: '' @ fmt_opt error)], Inl 1)
        else
          let state1 = state\<lparr>st_issue_class := issue_command\<rparr>;
              t2 = t1 @ [Log INFO ''Generating branch name'', GenerateBranchName adw];
              (branch_name, error2) = generate_branch_name P iss issue_command adw in
          if truthy_opt error2 then
            (t2 @ [Log ERROR (''Failed to generate branch name: '' @ fmt_opt error2)], Inl 1)
          else (t2, Inr (state1, branch_name)))"

text \<open>\<open>state.get("issue_class") or "/chore"\<close>.\<close>

definition plan_command :: "adw_state \<Rightarrow> string" where
  "plan_command state =
     (if truthy_opt (st_issue_class state) then the (st_issue_class state) else ''/chore'')"

text \<open>
  From the worktree to the end: the worktree and the ports go into the state, the state
  is saved, the environment installed, the plan built and its file recorded.
\<close>

definition plan_worktree ::
  "env \<Rightarrow> plan_env \<Rightarrow> string \<Rightarrow> issue \<Rightarrow> adw_state \<Rightarrow> string option \<Rightarrow> outcome" where
  "plan_worktree E P adw iss state branch_name =
     (let t1 = [Log INFO (''Using branch: '' @ fmt_opt branch_name),
                Log INFO ''Creating isolated worktree'',
                CreateWorktree adw branch_name];
          (worktree_path, error) = create_worktree P adw branch_name in
      if truthy_opt error then
        (t1 @ [Log ERROR (''Failed to create worktree: '' @ fmt_opt error)], 1)
      else
        let (backend_port, frontend_port) = find_next_available_ports P adw;
            state1 = state\<lparr>st_worktree_path := Some worktree_path,
                           st_branch_name := branch_name,
                           st_backend_port := Some backend_port,
                           st_frontend_port := Some frontend_port\<rparr>;
            rq = install_request adw worktree_path backend_port frontend_port;
            t2 = t1 @ [Log INFO (''Created worktree at: '' @ worktree_path),
                       AllocatePorts adw,
                       Log INFO (''Allocated ports - Backend: '' @ show_int backend_port
                                  @ '', Frontend: '' @ show_int frontend_port),
                       Save ''adw_plan_iso'' state1,
                       Log INFO ''Installing worktree environment'',
                       ExecuteTemplate rq];
            install_response = execute_template E rq in
        if \<not> success install_response then
          (t2 @ [Log ERROR (''Failed to install worktree: ''
                             @ resp_output install_response)], 1)
        else
          let issue_command = plan_command state1;
              t3 = t2 @ [Log INFO ''Worktree environment installed'',
                         Log INFO (''Building plan using command: '' @ issue_command),
                         BuildPlan issue_command adw (Some worktree_path)];
              plan_response = build_plan P iss issue_command adw (Some worktree_path) in
          if \<not> success plan_response then
            (t3 @ [Log ERROR (''Failed to build plan: '' @ resp_output plan_response)], 1)
          else
            let plan_file = plan_file_of (resp_output plan_response);
                state2 = state1\<lparr>st_plan_file := Some plan_file\<rparr> in
            (t3 @ [Log INFO (''Plan created: '' @ plan_file),
                   Save ''adw_plan_iso'' state2,
                   Print (CHR 0x0A # ''=== ISOLATED PLAN PHASE COMPLETED ===''),
                   Print (''ADW ID: '' @ adw),
                   Print (''Branch: '' @ fmt_opt branch_name),
                   Print (''Worktree: '' @ worktree_path),
                   Print (''Plan file: '' @ plan_file),
                   Print (''Ports: Backend='' @ show_int backend_port
                           @ '', Frontend='' @ show_int frontend_port)], 0))"

text \<open>The phase from the fetch of the issue on, for the state it works on.\<close>

definition plan_with_state ::
  "env \<Rightarrow> plan_env \<Rightarrow> string \<Rightarrow> string \<Rightarrow> adw_state \<Rightarrow> outcome" where
  "plan_with_state E P issue_number adw state =
     (let is_beads = is_beads_issue P issue_number;
          t1 = [Log INFO (''Fetching '' @ (if is_beads then ''beads'' else ''GitHub'')
                           @ '' issue: '' @ issue_number),
                FetchIssue issue_number];
          (fetched, error) = fetch_issue_unified P issue_number in
      if truthy_opt error then
        (t1 @ [Log ERROR (''Failed to fetch issue: '' @ fmt_opt error)], 1)
      else
        case fetched of
          None \<Rightarrow> (t1 @ [Uncaught AttributeError], 1)
        | Some iss \<Rightarrow>
            let t2 = t1 @ [Log INFO (''Fetched issue: '' @ title iss)]
                     @ (if is_beads then
                          UpdateBeadsStatus issue_number ''in_progress''
                          # (let (ok, err) = update_beads_status P issue_number ''in_progress''
                             in if \<not> ok
                                then [Log WARNING (''Failed to update beads status: ''
                                                    @ fmt_opt err)]
                                else [])
                        else []);
                b = plan_branch P adw iss state in
            case snd b of
              Inl code \<Rightarrow> (t2 @ fst b, code)
            | Inr (state1, branch_name) \<Rightarrow>
                (let r = plan_worktree E P adw iss state1 branch_name
                 in (t2 @ fst b @ fst r, snd r)))"

text \<open>
  The state the phase works on: the persisted one, or a fresh one that holds the run
  identifier and the issue number.
\<close>

definition plan_initial_state :: "env \<Rightarrow> string \<Rightarrow> string \<Rightarrow> adw_state" where
  "plan_initial_state E issue_number adw =
     (case load E adw of
        None \<Rightarrow> (new_state adw)\<lparr>st_adw_id := adw, st_issue_number := Some issue_number\<rparr>
      | Some state \<Rightarrow> state)"

text \<open>The run identifier of a planning invocation: the one given, made sure of.\<close>

definition plan_adw_id :: "plan_env \<Rightarrow> string list \<Rightarrow> string" where
  "plan_adw_id P argv =
     ensure_adw_id P (argv ! 1) (if 2 < length argv then Some (argv ! 2) else None)"

definition plan_main :: "env \<Rightarrow> plan_env \<Rightarrow> string list \<Rightarrow> outcome" where
  "plan_main E P argv =
     (if length argv < 2 then (plan_usage, 1)
      else
        let issue_number = argv ! 1;
            adw = plan_adw_id P argv;
            r = plan_with_state E P issue_number adw
                  (plan_initial_state E issue_number adw)
        in (Log INFO (''Using ADW ID: '' @ adw) # fst r, snd r))"

section \<open>Reading a trace\<close>

fun is_valid_ok :: "event \<Rightarrow> bool" where
  "is_valid_ok (ValidateWorktree a ok) = ok"
| "is_valid_ok e = False"

text \<open>
  \<open>guarded False tr\<close>: every agent call of the trace comes after a worktree validation
  that succeeded. The flag says whether one has been seen so far.
\<close>

fun guarded :: "bool \<Rightarrow> event list \<Rightarrow> bool" where
  "guarded seen [] = True"
| "guarded seen (e # es) =
     ((is_agent_call e \<longrightarrow> seen) \<and> guarded (seen \<or> is_valid_ok e) es)"

fun is_save :: "event \<Rightarrow> bool" where
  "is_save (Save l s) = True"
| "is_save e = False"

fun is_template_call :: "event \<Rightarrow> bool" where
  "is_template_call (ExecuteTemplate r) = True"
| "is_template_call e = False"

fun is_error_log :: "event \<Rightarrow> bool" where
  "is_error_log (Log ERROR m) = True"
| "is_error_log e = False"

text \<open>
  The patch call the resolution loop makes for a finding: the keyword arguments it
  builds from the finding's resolution.
\<close>

definition finding_request :: "string \<Rightarrow> string \<Rightarrow> string option \<Rightarrow> json \<Rightarrow> patch_request" where
  "finding_request adw spec_file worktree_path issue =
     patch_request_of adw spec_file worktree_path issue
       (case issue_item issue ''issue_resolution'' of Inr r \<Rightarrow> r | Inl e \<Rightarrow> JNull)"

text \<open>A finding the loop can read: a dict with a number, a description and a resolution.\<close>

definition complete_finding :: "json \<Rightarrow> bool" where
  "complete_finding issue =
     (case issue of
        JObj kvs \<Rightarrow> map_of kvs ''review_issue_number'' \<noteq> None
                   \<and> map_of kvs ''issue_description'' \<noteq> None
                   \<and> map_of kvs ''issue_resolution'' \<noteq> None
      | _ \<Rightarrow> False)"

text \<open>A field of a finding as an f-string prints it.\<close>

definition finding_field :: "env \<Rightarrow> json \<Rightarrow> string \<Rightarrow> string" where
  "finding_field E issue k =
     (case issue_item issue k of Inr v \<Rightarrow> fmt_json E v | Inl e \<Rightarrow> [])"

text \<open>
  The words of the claims about findings: a finding is a dict, it is blocking when its
  severity is the text \<open>blocker\<close>, and it has a description when that key is present.
\<close>

definition is_dict :: "json \<Rightarrow> bool" where
  "is_dict v = (case v of JObj kvs \<Rightarrow> True | _ \<Rightarrow> False)"

definition is_blocker :: "json \<Rightarrow> bool" where
  "is_blocker v =
     (case v of
        JObj kvs \<Rightarrow> map_of kvs ''issue_severity'' = Some (JStr ''blocker'')
      | _ \<Rightarrow> False)"

definition has_description :: "json \<Rightarrow> bool" where
  "has_description v =
     (case v of JObj kvs \<Rightarrow> map_of kvs ''issue_description'' \<noteq> None | _ \<Rightarrow> False)"

section \<open>A reader for plain JSON documents\<close>

text \<open>
  The concrete runs below need a concrete \<open>json.loads\<close>. This reader follows the JSON
  grammar for objects, arrays, strings with the two-character escapes, integers and
  the three literals, and rejects what \<open>json.loads\<close> rejects among such texts. Floats and
  \<open>\u\<close> escapes are outside it: the runs below use neither. A key given twice keeps
  its first place and its last value, as in a Python dict.
\<close>

definition json_ws :: "char \<Rightarrow> bool" where
  "json_ws c = (c = CHR '' '' \<or> c = CHR 0x09 \<or> c = CHR 0x0A \<or> c = CHR 0x0D)"

definition skip_ws :: "string \<Rightarrow> string" where
  "skip_ws s = dropWhile json_ws s"

definition unescape :: "char \<Rightarrow> char option" where
  "unescape e =
     (if e = CHR 0x22 then Some (CHR 0x22)
      else if e = CHR 0x5C then Some (CHR 0x5C)
      else if e = CHR ''/'' then Some (CHR ''/'')
      else if e = CHR ''b'' then Some (CHR 0x08)
      else if e = CHR ''f'' then Some (CHR 0x0C)
      else if e = CHR ''n'' then Some (CHR 0x0A)
      else if e = CHR ''r'' then Some (CHR 0x0D)
      else if e = CHR ''t'' then Some (CHR 0x09)
      else None)"

text \<open>The text after an opening quote: its content and what follows the closing quote.\<close>

fun scan_string :: "string \<Rightarrow> (string \<times> string) option" where
  "scan_string [] = None"
| "scan_string [c] = (if c = CHR 0x22 then Some ([], []) else None)"
| "scan_string (c # e # cs) =
     (if c = CHR 0x22 then Some ([], e # cs)
      else if c = CHR 0x5C then
        (case unescape e of
           None \<Rightarrow> None
         | Some ch \<Rightarrow>
             (case scan_string cs of None \<Rightarrow> None | Some (s, r) \<Rightarrow> Some (ch # s, r)))
      else if (of_char c :: nat) < 32 then None
      else (case scan_string (e # cs) of None \<Rightarrow> None | Some (s, r) \<Rightarrow> Some (c # s, r)))"

definition is_digit :: "char \<Rightarrow> bool" where
  "is_digit c = (48 \<le> (of_char c :: nat) \<and> (of_char c :: nat) \<le> 57)"

definition digits_value :: "string \<Rightarrow> nat" where
  "digits_value ds = foldl (\<lambda>n c. 10 * n + (of_char c - 48)) 0 ds"

definition scan_int :: "string \<Rightarrow> (int \<times> string) option" where
  "scan_int s =
     (let neg = prefix ''-'' s;
          r = (if neg then drop 1 s else s);
          ds = takeWhile is_digit r;
          rest = dropWhile is_digit r in
      if ds = [] then None
      else if 1 < length ds \<and> prefix ''0'' ds then None
      else if prefix ''.'' rest \<or> prefix ''e'' rest \<or> prefix ''E'' rest then None
      else Some (if neg then - int (digits_value ds) else int (digits_value ds), rest))"

definition dict_set :: "(string \<times> json) list \<Rightarrow> string \<Rightarrow> json \<Rightarrow> (string \<times> json) list" where
  "dict_set kvs k v =
     (if k \<in> fst ` set kvs then map (\<lambda>kv. if fst kv = k then (k, v) else kv) kvs
      else kvs @ [(k, v)])"

definition dict_of :: "(string \<times> json) list \<Rightarrow> (string \<times> json) list" where
  "dict_of kvs = foldl (\<lambda>d kv. dict_set d (fst kv) (snd kv)) [] kvs"

text \<open>
  A value, the elements of an array after its bracket, the members of an object after
  its brace; the first argument bounds the number of nested calls.
\<close>

fun parse_value :: "nat \<Rightarrow> string \<Rightarrow> (json \<times> string) option"
  and parse_elements :: "nat \<Rightarrow> string \<Rightarrow> (json list \<times> string) option"
  and parse_members :: "nat \<Rightarrow> string \<Rightarrow> ((string \<times> json) list \<times> string) option" where
  "parse_value 0 s = None"
| "parse_value (Suc n) s =
     (case skip_ws s of
        [] \<Rightarrow> None
      | c # r \<Rightarrow>
          if c = CHR ''{'' then
            (if prefix ''}'' (skip_ws r) then Some (JObj [], drop 1 (skip_ws r))
             else (case parse_members n r of
                     None \<Rightarrow> None
                   | Some (kvs, r2) \<Rightarrow> Some (JObj (dict_of kvs), r2)))
          else if c = CHR ''['' then
            (if prefix '']'' (skip_ws r) then Some (JArr [], drop 1 (skip_ws r))
             else (case parse_elements n r of
                     None \<Rightarrow> None
                   | Some (xs, r2) \<Rightarrow> Some (JArr xs, r2)))
          else if c = CHR 0x22 then
            (case scan_string r of None \<Rightarrow> None | Some (str, r2) \<Rightarrow> Some (JStr str, r2))
          else if prefix ''true'' (c # r) then Some (JBool True, drop 4 (c # r))
          else if prefix ''false'' (c # r) then Some (JBool False, drop 5 (c # r))
          else if prefix ''null'' (c # r) then Some (JNull, drop 4 (c # r))
          else (case scan_int (c # r) of None \<Rightarrow> None | Some (i, r2) \<Rightarrow> Some (JInt i, r2)))"
| "parse_elements 0 s = None"
| "parse_elements (Suc n) s =
     (case parse_value n s of
        None \<Rightarrow> None
      | Some (v, r) \<Rightarrow>
          (case skip_ws r of
             [] \<Rightarrow> None
           | c # r' \<Rightarrow>
               if c = CHR '']'' then Some ([v], r')
               else if c = CHR '','' then
                 (case parse_elements n r' of
                    None \<Rightarrow> None
                  | Some (vs, r2) \<Rightarrow> Some (v # vs, r2))
               else None))"
| "parse_members 0 s = None"
| "parse_members (Suc n) s =
     (case skip_ws s of
        [] \<Rightarrow> None
      | c # r \<Rightarrow>
          if c \<noteq> CHR 0x22 then None
          else
            (case scan_string r of
               None \<Rightarrow> None
             | Some (k, r1) \<Rightarrow>
                 if \<not> prefix '':'' (skip_ws r1) then None
                 else
                   (case parse_value n (drop 1 (skip_ws r1)) of
                      None \<Rightarrow> None
                    | Some (v, r3) \<Rightarrow>
                        (case skip_ws r3 of
                           [] \<Rightarrow> None
                         | e # r4 \<Rightarrow>
                             if e = CHR ''}'' then Some ([(k, v)], r4)
                             else if e = CHR '','' then
                               (case parse_members n r4 of
                                  None \<Rightarrow> None
                                | Some (kvs, r5) \<Rightarrow> Some ((k, v) # kvs, r5))
                             else None))))"

definition json_loads_plain :: "string \<Rightarrow> json option" where
  "json_loads_plain s =
     (case parse_value (Suc (length s)) s of
        None \<Rightarrow> None
      | Some (v, r) \<Rightarrow> if skip_ws r = [] then Some v else None)"

text \<open>\<open>str\<close> on the scalars the runs below print; they print no container and no float.\<close>

definition py_str_plain :: "json \<Rightarrow> string" where
  "py_str_plain v =
     (case v of
        JNull \<Rightarrow> ''None''
      | JBool b \<Rightarrow> (if b then ''True'' else ''False'')
      | JInt i \<Rightarrow> show_int i
      | JStr s \<Rightarrow> s
      | _ \<Rightarrow> [])"

section \<open>A concrete run\<close>

text \<open>
  A run \<open>abc12345\<close> that the planning phase has left behind, and collaborators that
  find it: the worktree is valid, the spec file is the plan file of the state, nothing
  lies under the screenshot directory, the agent answers every template with the given
  response, and the patch call number \<open>n\<close> answers with the \<open>n\<close>-th of the given
  responses (a failure once they are used up). The wording of a decode error is not
  followed: one fixed text stands for it.
\<close>

definition run_state :: adw_state where
  "run_state =
     \<lparr>st_adw_id = ''abc12345'', st_issue_number = Some ''42'',
      st_branch_name = Some ''feat-issue-42-adw-abc12345-review'',
      st_worktree_path = Some ''trees/abc12345'',
      st_backend_port = Some 9100, st_frontend_port = Some 9200,
      st_plan_file = Some ''specs/plan-42.md'', st_issue_class = Some ''/feature''\<rparr>"

definition run_env :: "agent_response \<Rightarrow> agent_response list \<Rightarrow> env" where
  "run_env answer patches =
     \<lparr>load = (\<lambda>a. if a = ''abc12345'' then Some run_state else None),
      validate_worktree = (\<lambda>a s. (True, None)),
      find_spec_file = st_plan_file,
      implement_plan = (\<lambda>spec a name w. answer),
      execute_template = (\<lambda>rq. answer),
      create_and_implement_patch =
        (\<lambda>n rq. (None,
           if n < length patches then patches ! n
           else \<lparr>resp_output = ''no answer'', success = False\<rparr>)),
      json_loads =
        (\<lambda>s. case json_loads_plain s of
               Some v \<Rightarrow> Inr v
             | None \<Rightarrow> Inl (JSONDecodeError ''invalid JSON'')),
      py_str = py_str_plain,
      path_exists = (\<lambda>p. False),
      project_root = ''/repo''\<rparr>"

definition run_plan_env :: "agent_response \<Rightarrow> plan_env" where
  "run_plan_env plan_answer =
     \<lparr>ensure_adw_id = (\<lambda>i given. case given of Some a \<Rightarrow> a | None \<Rightarrow> ''abc12345''),
      is_beads_issue = (\<lambda>i. False),
      fetch_issue_unified =
        (\<lambda>i. (Some \<lparr>title = ''Add export'', body = ''Export the report''\<rparr>, None)),
      update_beads_status = (\<lambda>i s. (True, None)),
      classify_issue = (\<lambda>iss a. (Some ''/feature'', None)),
      generate_branch_name = (\<lambda>iss c a. (Some ''feat-issue-42-adw-new-export'', None)),
      create_worktree = (\<lambda>a b. (''trees/'' @ a, None)),
      find_next_available_ports = (\<lambda>a. (9100, 9200)),
      build_plan = (\<lambda>iss c a w. plan_answer)\<rparr>"

text \<open>The same collaborators, except that the worktree of the run is gone.\<close>

definition lost_worktree_env :: env where
  "lost_worktree_env =
     (run_env \<lparr>resp_output = ''ok'', success = True\<rparr> [])
       \<lparr>validate_worktree := (\<lambda>a s. (False, Some ''Worktree directory not found''))\<rparr>"

text \<open>The same collaborators, except that no spec file is found for any state.\<close>

definition no_spec_env :: env where
  "no_spec_env =
     (run_env \<lparr>resp_output = ''app_docs/feature-export.md'', success = True\<rparr> [])
       \<lparr>find_spec_file := (\<lambda>s. None)\<rparr>"

text \<open>
  The same collaborators, except that \<open>json.loads\<close> gives up on every text with a
  \<open>RecursionError\<close>, as it does on a text that is nested too deeply.
\<close>

definition nesting_env :: env where
  "nesting_env =
     (run_env \<lparr>resp_output = ''[[[[[[[['', success = True\<rparr> [])
       \<lparr>json_loads := (\<lambda>s. Inl RecursionError)\<rparr>"

text \<open>A text between double quotes, for the JSON texts of the runs.\<close>

definition dq :: "string \<Rightarrow> string" where
  "dq s = CHR 0x22 # s @ [CHR 0x22]"

text \<open>The answer of a review that found nothing.\<close>

definition clean_review_text :: string where
  "clean_review_text =
     ''{'' @ dq ''success'' @ '': true, '' @ dq ''review_summary'' @ '': '' @ dq ''ok''
     @ '', '' @ dq ''review_issues'' @ '': []}''"

definition run_argv :: "string \<Rightarrow> string list" where
  "run_argv script = [script, ''42'', ''abc12345'']"

text \<open>
  The answers of a review that found something: one finding as JSON text and as the
  document it stands for, a review with one blocker inside a fence tagged \<open>json\<close>,
  and a bare review with two blockers around a finding of lesser severity.
\<close>

definition finding_text :: "string \<Rightarrow> string \<Rightarrow> string \<Rightarrow> string \<Rightarrow> string" where
  "finding_text num descr resolution severity =
     ''{'' @ dq ''review_issue_number'' @ '': '' @ num
     @ '', '' @ dq ''issue_description'' @ '': '' @ dq descr
     @ '', '' @ dq ''issue_resolution'' @ '': '' @ dq resolution
     @ '', '' @ dq ''issue_severity'' @ '': '' @ dq severity @ ''}''"

definition finding_doc :: "int \<Rightarrow> string \<Rightarrow> string \<Rightarrow> string \<Rightarrow> json" where
  "finding_doc num descr resolution severity =
     JObj [(''review_issue_number'', JInt num), (''issue_description'', JStr descr),
           (''issue_resolution'', JStr resolution), (''issue_severity'', JStr severity)]"

definition one_blocker_review :: string where
  "one_blocker_review =
     ''```json'' @ [CHR 0x0A]
     @ ''{'' @ dq ''success'' @ '': false, '' @ dq ''review_summary'' @ '': ''
     @ dq ''no export'' @ '', '' @ dq ''review_issues'' @ '': [''
     @ finding_text ''1'' ''no export button'' ''add the button'' ''blocker''
     @ '']}'' @ [CHR 0x0A] @ ''```''"

definition one_blocker_doc :: "(string \<times> json) list" where
  "one_blocker_doc =
     [(''success'', JBool False), (''review_summary'', JStr ''no export''),
      (''review_issues'',
       JArr [finding_doc 1 ''no export button'' ''add the button'' ''blocker''])]"

definition two_blocker_review :: string where
  "two_blocker_review =
     ''{'' @ dq ''success'' @ '': false, '' @ dq ''review_summary'' @ '': ''
     @ dq ''incomplete'' @ '', '' @ dq ''review_issues'' @ '': [''
     @ finding_text ''1'' ''no export button'' ''add the button'' ''blocker''
     @ '', ''
     @ finding_text ''2'' ''uneven spacing'' ''align columns'' ''tech_debt''
     @ '', ''
     @ finding_text ''3'' ''no CSV header'' ''write the header'' ''blocker''
     @ '']}''"

definition two_blocker_doc :: "(string \<times> json) list" where
  "two_blocker_doc =
     [(''success'', JBool False), (''review_summary'', JStr ''incomplete''),
      (''review_issues'',
       JArr [finding_doc 1 ''no export button'' ''add the button'' ''blocker'',
             finding_doc 2 ''uneven spacing'' ''align columns'' ''tech_debt'',
             finding_doc 3 ''no CSV header'' ''write the header'' ''blocker''])]"

text \<open>
  A review with three blockers, the second of which has neither a description nor a
  resolution.
\<close>

definition gap_review :: string where
  "gap_review =
     ''{'' @ dq ''review_issues'' @ '': [''
     @ finding_text ''1'' ''no export button'' ''add the button'' ''blocker''
     @ '', {'' @ dq ''review_issue_number'' @ '': 2, ''
     @ dq ''issue_severity'' @ '': '' @ dq ''blocker'' @ ''}, ''
     @ finding_text ''3'' ''no CSV header'' ''write the header'' ''blocker''
     @ '']}''"

definition gap_doc :: "(string \<times> json) list" where
  "gap_doc =
     [(''review_issues'',
       JArr [finding_doc 1 ''no export button'' ''add the button'' ''blocker'',
             JObj [(''review_issue_number'', JInt 2), (''issue_severity'', JStr ''blocker'')],
             finding_doc 3 ''no CSV header'' ''write the header'' ''blocker''])]"

text \<open>An invocation that skips the resolution, and the two answers of a patch call.\<close>

definition skip_argv :: "string list" where
  "skip_argv = [''adw_review_iso.py'', ''42'', ''abc12345'', ''--skip-resolution'']"

definition patched :: agent_response where
  "patched = \<lparr>resp_output = ''patch applied'', success = True\<rparr>"

definition not_patched :: agent_response where
  "not_patched = \<lparr>resp_output = ''patch did not apply'', success = False\<rparr>"

section \<open>Facts about the command line and the traces\<close>

lemma guarded_True [simp]: "guarded True tr"
  by (induction tr) auto

lemma build_main_phase: "3 \<le> length argv \<Longrightarrow> build_main E argv = build_phase E (argv ! 2)"
  by (simp add: build_main_def)

lemma document_main_phase:
  "3 \<le> length argv \<Longrightarrow> document_main E argv = document_phase E (argv ! 2)"
  by (simp add: document_main_def)

lemma test_main_phase:
  "3 \<le> length (remove_flag ''--skip-e2e'' argv) \<Longrightarrow>
   test_main E argv =
     test_phase E (''--skip-e2e'' \<in> set argv) (remove_flag ''--skip-e2e'' argv ! 2)"
  by (simp add: test_main_def Let_def)

lemma review_main_phase:
  "3 \<le> length (remove_flag ''--skip-resolution'' argv) \<Longrightarrow>
   review_main E argv =
     review_phase E (''--skip-resolution'' \<in> set argv)
       (remove_flag ''--skip-resolution'' argv ! 2)"
  by (simp add: review_main_def Let_def)

lemma usage_no_agent:
  "filter is_agent_call build_usage = []" "filter is_agent_call test_usage = []"
  "filter is_agent_call review_usage = []" "filter is_agent_call document_usage = []"
  by (simp_all add: build_usage_def test_usage_def review_usage_def document_usage_def)

lemma usage_guarded:
  "guarded False build_usage" "guarded False test_usage" "guarded False review_usage"
  by (simp_all add: build_usage_def test_usage_def review_usage_def)

lemma run_argv_plain:
  "s \<noteq> ''--skip-e2e'' \<Longrightarrow> remove_flag ''--skip-e2e'' (run_argv s) = run_argv s"
  "s \<noteq> ''--skip-resolution'' \<Longrightarrow>
     remove_flag ''--skip-resolution'' (run_argv s) = run_argv s"
  "s \<noteq> ''--skip-e2e'' \<Longrightarrow> ''--skip-e2e'' \<notin> set (run_argv s)"
  "s \<noteq> ''--skip-resolution'' \<Longrightarrow> ''--skip-resolution'' \<notin> set (run_argv s)"
  "length (run_argv s) = 3" "run_argv s ! 2 = ''abc12345''" "run_argv s ! 1 = ''42''"
  by (auto simp add: run_argv_def remove_flag_def)

lemma run_env_sel:
  "load (run_env a ps) ''abc12345'' = Some run_state"
  "validate_worktree (run_env a ps) x s = (True, None)"
  "find_spec_file (run_env a ps) run_state = Some ''specs/plan-42.md''"
  "execute_template (run_env a ps) rq = a"
  "implement_plan (run_env a ps) sp x n w = a"
  "json_loads (run_env a ps) t =
     (case json_loads_plain t of
        Some v \<Rightarrow> Inr v
      | None \<Rightarrow> Inl (JSONDecodeError ''invalid JSON''))"
  "py_str (run_env a ps) = py_str_plain"
  "path_exists (run_env a ps) p = False"
  "project_root (run_env a ps) = ''/repo''"
  by (simp_all add: run_env_def run_state_def)

section \<open>The test phase and a failing test run\<close>

lemma test_phase_ready:
  assumes "load E adw = Some state" and "fst (validate_worktree E adw state)"
  shows "Save ''adw_test_iso'' state \<in> set (fst (test_phase E sk adw))
       \<and> snd (test_phase E sk adw) =
           (if success (execute_template E (test_request adw (st_worktree_path state)))
            then 0 else 1)"
  using assms by (simp add: test_phase_def Let_def case_prod_beta)

text \<open>
  Claim C2, as amended. For every test-phase invocation whose preconditions hold (the
  state is present and the worktree valid), a test run that reports failures does not
  stop the phase before the save: the state is saved under the label of the phase. The
  exit status then follows the test result: 0 when the tests passed and 1 when they
  failed.
\<close>

theorem test_phase_saves_then_exits_with_test_status:
  assumes "3 \<le> length (remove_flag ''--skip-e2e'' argv)"
    and "load E (remove_flag ''--skip-e2e'' argv ! 2) = Some state"
    and "fst (validate_worktree E (remove_flag ''--skip-e2e'' argv ! 2) state)"
  shows "Save ''adw_test_iso'' state \<in> set (fst (test_main E argv))
       \<and> snd (test_main E argv) =
           (if success (execute_template E
                  (test_request (remove_flag ''--skip-e2e'' argv ! 2)
                     (st_worktree_path state)))
            then 0 else 1)"
  using assms test_phase_ready by (simp add: test_main_phase)

theorem test_phase_saves_then_exits_with_test_status_witness:
  "3 \<le> length (remove_flag ''--skip-e2e'' (run_argv ''adw_test_iso.py''))
   \<and> load (run_env \<lparr>resp_output = ''2 failed'', success = False\<rparr> [])
        (remove_flag ''--skip-e2e'' (run_argv ''adw_test_iso.py'') ! 2) = Some run_state
   \<and> fst (validate_worktree (run_env \<lparr>resp_output = ''2 failed'', success = False\<rparr> [])
        (remove_flag ''--skip-e2e'' (run_argv ''adw_test_iso.py'') ! 2) run_state)
   \<and> Save ''adw_test_iso'' run_state
        \<in> set (fst (test_main (run_env \<lparr>resp_output = ''2 failed'', success = False\<rparr> [])
                     (run_argv ''adw_test_iso.py'')))
   \<and> snd (test_main (run_env \<lparr>resp_output = ''2 failed'', success = False\<rparr> [])
             (run_argv ''adw_test_iso.py'')) = 1"
  using test_phase_saves_then_exits_with_test_status
    [of "run_argv ''adw_test_iso.py''"
        "run_env \<lparr>resp_output = ''2 failed'', success = False\<rparr> []" run_state]
  by (simp add: run_argv_plain run_env_sel)

text \<open>
  Claim C2 as stated fails: the run \<open>abc12345\<close> has its state and a valid worktree,
  the test agent reports failures, and the test phase exits with status 1, not 0.
\<close>

theorem test_phase_failure_exit_counterexample:
  "load (run_env \<lparr>resp_output = ''2 failed'', success = False\<rparr> []) ''abc12345''
     = Some run_state
   \<and> fst (validate_worktree (run_env \<lparr>resp_output = ''2 failed'', success = False\<rparr> [])
            ''abc12345'' run_state)
   \<and> snd (test_main (run_env \<lparr>resp_output = ''2 failed'', success = False\<rparr> [])
             [''adw_test_iso.py'', ''42'', ''abc12345'']) = 1"
  by (simp add: test_main_def test_phase_def remove_flag_def run_env_sel Let_def)

section \<open>A run without persisted state\<close>

lemma build_missing:
  "load E (argv ! 2) = None \<Longrightarrow>
   snd (build_main E argv) = 1 \<and> filter is_agent_call (fst (build_main E argv)) = []"
  by (simp add: build_main_def build_phase_def usage_no_agent)

lemma document_missing:
  "load E (argv ! 2) = None \<Longrightarrow>
   snd (document_main E argv) = 1 \<and> filter is_agent_call (fst (document_main E argv)) = []"
  by (simp add: document_main_def document_phase_def usage_no_agent)

lemma test_missing:
  "load E (remove_flag ''--skip-e2e'' argv ! 2) = None \<Longrightarrow>
   snd (test_main E argv) = 1 \<and> filter is_agent_call (fst (test_main E argv)) = []"
  by (simp add: test_main_def test_phase_def usage_no_agent Let_def)

lemma review_missing:
  "load E (remove_flag ''--skip-resolution'' argv ! 2) = None \<Longrightarrow>
   snd (review_main E argv) = 1 \<and> filter is_agent_call (fst (review_main E argv)) = []"
  by (simp add: review_main_def review_phase_def usage_no_agent Let_def)

lemma plan_fresh:
  assumes "2 \<le> length argv" and "load E (plan_adw_id P argv) = None"
  shows "plan_initial_state E (argv ! 1) (plan_adw_id P argv) =
           \<lparr>st_adw_id = plan_adw_id P argv, st_issue_number = Some (argv ! 1),
            st_branch_name = None, st_worktree_path = None,
            st_backend_port = None, st_frontend_port = None,
            st_plan_file = None, st_issue_class = None\<rparr>"
    and "take 3 (fst (plan_main E P argv)) =
           [Log INFO (''Using ADW ID: '' @ plan_adw_id P argv),
            Log INFO (''Fetching ''
                       @ (if is_beads_issue P (argv ! 1) then ''beads'' else ''GitHub'')
                       @ '' issue: '' @ argv ! 1),
            FetchIssue (argv ! 1)]"
  using assms
  by (simp_all add: plan_main_def plan_initial_state_def new_state_def plan_with_state_def
      Let_def case_prod_beta split: option.splits sum.splits)

lemma plan_fresh_run:
  assumes "2 \<le> length argv" and "load E (plan_adw_id P argv) = None"
    and "fetch_issue_unified P (argv ! 1) = (Some iss, e0)" and "\<not> truthy_opt e0"
    and "classify_issue P iss (plan_adw_id P argv) = (cls, e1)" and "\<not> truthy_opt e1"
    and "generate_branch_name P iss cls (plan_adw_id P argv) = (bn, e2)"
    and "\<not> truthy_opt e2"
    and "create_worktree P (plan_adw_id P argv) bn = (wt, e3)" and "\<not> truthy_opt e3"
    and "find_next_available_ports P (plan_adw_id P argv) = (bp, fp)"
    and "success (execute_template E
           \<lparr>agent_name = ''worktree_installer'', slash_command = ''/install_worktree'',
            args = [wt, show_int bp, show_int fp],
            req_adw_id = plan_adw_id P argv, working_dir = None\<rparr>)"
    and "build_plan P iss (if truthy_opt cls then the cls else ''/chore'')
           (plan_adw_id P argv) (Some wt) = \<lparr>resp_output = out, success = True\<rparr>"
  shows "filter is_save (fst (plan_main E P argv)) =
           [Save ''adw_plan_iso''
              \<lparr>st_adw_id = plan_adw_id P argv, st_issue_number = Some (argv ! 1),
               st_branch_name = bn, st_worktree_path = Some wt,
               st_backend_port = Some bp, st_frontend_port = Some fp,
               st_plan_file = None, st_issue_class = cls\<rparr>,
            Save ''adw_plan_iso''
              \<lparr>st_adw_id = plan_adw_id P argv, st_issue_number = Some (argv ! 1),
               st_branch_name = bn, st_worktree_path = Some wt,
               st_backend_port = Some bp, st_frontend_port = Some fp,
               st_plan_file = Some (plan_file_of out), st_issue_class = cls\<rparr>]"
    and "snd (plan_main E P argv) = 0"
  using assms
  by (auto simp add: plan_main_def plan_initial_state_def new_state_def plan_with_state_def
      plan_branch_def plan_worktree_def plan_command_def install_request_def
      Let_def case_prod_beta truthy_opt_def split: if_splits)

text \<open>
  Claim C5. For every run identifier with no persisted state, the build, test, review
  and document phases each exit with status 1 and their trace holds no agent call. The
  planning phase instead goes on with a fresh state that holds the run identifier and
  the issue number and nothing else: its next step is the fetch of the issue, and when
  its collaborators succeed it is that state, completed with the issue class, the
  branch, the worktree, the ports and at last the plan file, that the phase saves twice
  before it exits with status 0.
\<close>

theorem missing_state_is_fatal_except_for_planning:
  "(load E (argv ! 2) = None \<longrightarrow>
      snd (build_main E argv) = 1 \<and> filter is_agent_call (fst (build_main E argv)) = [])
   \<and> (load E (remove_flag ''--skip-e2e'' argv ! 2) = None \<longrightarrow>
      snd (test_main E argv) = 1 \<and> filter is_agent_call (fst (test_main E argv)) = [])
   \<and> (load E (remove_flag ''--skip-resolution'' argv ! 2) = None \<longrightarrow>
      snd (review_main E argv) = 1 \<and> filter is_agent_call (fst (review_main E argv)) = [])
   \<and> (load E (argv ! 2) = None \<longrightarrow>
      snd (document_main E argv) = 1
      \<and> filter is_agent_call (fst (document_main E argv)) = [])
   \<and> (2 \<le> length argv \<and> load E (plan_adw_id P argv) = None \<longrightarrow>
      plan_initial_state E (argv ! 1) (plan_adw_id P argv) =
        \<lparr>st_adw_id = plan_adw_id P argv, st_issue_number = Some (argv ! 1),
         st_branch_name = None, st_worktree_path = None,
         st_backend_port = None, st_frontend_port = None,
         st_plan_file = None, st_issue_class = None\<rparr>
      \<and> take 3 (fst (plan_main E P argv)) =
           [Log INFO (''Using ADW ID: '' @ plan_adw_id P argv),
            Log INFO (''Fetching ''
                       @ (if is_beads_issue P (argv ! 1) then ''beads'' else ''GitHub'')
                       @ '' issue: '' @ argv ! 1),
            FetchIssue (argv ! 1)])
   \<and> (2 \<le> length argv \<and> load E (plan_adw_id P argv) = None
      \<and> fetch_issue_unified P (argv ! 1) = (Some iss, e0) \<and> \<not> truthy_opt e0
      \<and> classify_issue P iss (plan_adw_id P argv) = (cls, e1) \<and> \<not> truthy_opt e1
      \<and> generate_branch_name P iss cls (plan_adw_id P argv) = (bn, e2) \<and> \<not> truthy_opt e2
      \<and> create_worktree P (plan_adw_id P argv) bn = (wt, e3) \<and> \<not> truthy_opt e3
      \<and> find_next_available_ports P (plan_adw_id P argv) = (bp, fp)
      \<and> success (execute_template E
           \<lparr>agent_name = ''worktree_installer'', slash_command = ''/install_worktree'',
            args = [wt, show_int bp, show_int fp],
            req_adw_id = plan_adw_id P argv, working_dir = None\<rparr>)
      \<and> build_plan P iss (if truthy_opt cls then the cls else ''/chore'')
           (plan_adw_id P argv) (Some wt) = \<lparr>resp_output = out, success = True\<rparr> \<longrightarrow>
      filter is_save (fst (plan_main E P argv)) =
        [Save ''adw_plan_iso''
           \<lparr>st_adw_id = plan_adw_id P argv, st_issue_number = Some (argv ! 1),
            st_branch_name = bn, st_worktree_path = Some wt,
            st_backend_port = Some bp, st_frontend_port = Some fp,
            st_plan_file = None, st_issue_class = cls\<rparr>,
         Save ''adw_plan_iso''
           \<lparr>st_adw_id = plan_adw_id P argv, st_issue_number = Some (argv ! 1),
            st_branch_name = bn, st_worktree_path = Some wt,
            st_backend_port = Some bp, st_frontend_port = Some fp,
            st_plan_file = Some (plan_file_of out), st_issue_class = cls\<rparr>]
      \<and> snd (plan_main E P argv) = 0)"
  using build_missing [of E argv] test_missing [of E argv] review_missing [of E argv]
    document_missing [of E argv] plan_fresh [of argv E P]
    plan_fresh_run [of argv E P iss e0 cls e1 bn e2 wt e3 bp fp out]
  by blast

theorem missing_state_is_fatal_except_for_planning_witness:
  "load (run_env \<lparr>resp_output = ''ok'', success = True\<rparr> []) ([''phase.py'', ''42'', ''nostate1''] ! 2)
     = None
   \<and> remove_flag ''--skip-e2e'' [''phase.py'', ''42'', ''nostate1'']
       = [''phase.py'', ''42'', ''nostate1'']
   \<and> remove_flag ''--skip-resolution'' [''phase.py'', ''42'', ''nostate1'']
       = [''phase.py'', ''42'', ''nostate1'']
   \<and> plan_adw_id (run_plan_env \<lparr>resp_output = ''specs/plan-42.md'', success = True\<rparr>)
        [''phase.py'', ''42'', ''nostate1''] = ''nostate1''
   \<and> snd (build_main (run_env \<lparr>resp_output = ''ok'', success = True\<rparr> [])
             [''phase.py'', ''42'', ''nostate1'']) = 1
   \<and> snd (test_main (run_env \<lparr>resp_output = ''ok'', success = True\<rparr> [])
             [''phase.py'', ''42'', ''nostate1'']) = 1
   \<and> snd (review_main (run_env \<lparr>resp_output = ''ok'', success = True\<rparr> [])
             [''phase.py'', ''42'', ''nostate1'']) = 1
   \<and> snd (document_main (run_env \<lparr>resp_output = ''ok'', success = True\<rparr> [])
             [''phase.py'', ''42'', ''nostate1'']) = 1
   \<and> take 3 (fst (plan_main (run_env \<lparr>resp_output = ''ok'', success = True\<rparr> [])
                     (run_plan_env \<lparr>resp_output = ''specs/plan-42.md'', success = True\<rparr>)
                     [''phase.py'', ''42'', ''nostate1''])) =
        [Log INFO ''Using ADW ID: nostate1'',
         Log INFO ''Fetching GitHub issue: 42'',
         FetchIssue ''42'']
   \<and> filter is_save
        (fst (plan_main (run_env \<lparr>resp_output = ''ok'', success = True\<rparr> [])
                (run_plan_env \<lparr>resp_output = ''specs/plan-42.md'', success = True\<rparr>)
                [''phase.py'', ''42'', ''nostate1''])) =
        [Save ''adw_plan_iso''
           \<lparr>st_adw_id = ''nostate1'', st_issue_number = Some ''42'',
            st_branch_name = Some ''feat-issue-42-adw-new-export'',
            st_worktree_path = Some ''trees/nostate1'',
            st_backend_port = Some 9100, st_frontend_port = Some 9200,
            st_plan_file = None, st_issue_class = Some ''/feature''\<rparr>,
         Save ''adw_plan_iso''
           \<lparr>st_adw_id = ''nostate1'', st_issue_number = Some ''42'',
            st_branch_name = Some ''feat-issue-42-adw-new-export'',
            st_worktree_path = Some ''trees/nostate1'',
            st_backend_port = Some 9100, st_frontend_port = Some 9200,
            st_plan_file = Some ''specs/plan-42.md'', st_issue_class = Some ''/feature''\<rparr>]
   \<and> snd (plan_main (run_env \<lparr>resp_output = ''ok'', success = True\<rparr> [])
             (run_plan_env \<lparr>resp_output = ''specs/plan-42.md'', success = True\<rparr>)
             [''phase.py'', ''42'', ''nostate1'']) = 0"
proof -
  let ?P = "run_plan_env \<lparr>resp_output = ''specs/plan-42.md'', success = True\<rparr>"
  have a: "load (run_env \<lparr>resp_output = ''ok'', success = True\<rparr> []) ''nostate1'' = None"
    by (simp add: run_env_def)
  have b: "remove_flag ''--skip-e2e'' [''phase.py'', ''42'', ''nostate1'']
             = [''phase.py'', ''42'', ''nostate1'']"
    "remove_flag ''--skip-resolution'' [''phase.py'', ''42'', ''nostate1'']
             = [''phase.py'', ''42'', ''nostate1'']"
    by (simp_all add: remove_flag_def)
  have c: "plan_adw_id ?P [''phase.py'', ''42'', ''nostate1''] = ''nostate1''"
    "is_beads_issue ?P ''42'' = False"
    by (simp_all add: plan_adw_id_def run_plan_env_def)
  have d: "fetch_issue_unified ?P ''42''
             = (Some \<lparr>title = ''Add export'', body = ''Export the report''\<rparr>, None)"
    "classify_issue ?P \<lparr>title = ''Add export'', body = ''Export the report''\<rparr> ''nostate1''
       = (Some ''/feature'', None)"
    "generate_branch_name ?P \<lparr>title = ''Add export'', body = ''Export the report''\<rparr>
       (Some ''/feature'') ''nostate1'' = (Some ''feat-issue-42-adw-new-export'', None)"
    "create_worktree ?P ''nostate1'' (Some ''feat-issue-42-adw-new-export'')
       = (''trees/nostate1'', None)"
    "find_next_available_ports ?P ''nostate1'' = (9100, 9200)"
    "build_plan ?P \<lparr>title = ''Add export'', body = ''Export the report''\<rparr> ''/feature''
       ''nostate1'' (Some ''trees/nostate1'')
       = \<lparr>resp_output = ''specs/plan-42.md'', success = True\<rparr>"
    by (simp_all add: run_plan_env_def)
  have e: "plan_file_of ''specs/plan-42.md'' = ''specs/plan-42.md''"
    by (simp add: plan_file_of_def match_plan_at_def is_name_char_def is_word_def Let_def)
  show ?thesis
    using missing_state_is_fatal_except_for_planning
      [of "run_env \<lparr>resp_output = ''ok'', success = True\<rparr> []"
          "[''phase.py'', ''42'', ''nostate1'']" ?P
          "\<lparr>title = ''Add export'', body = ''Export the report''\<rparr>" None
          "Some ''/feature''" None "Some ''feat-issue-42-adw-new-export''" None
          "''trees/nostate1''" None 9100 9200 "''specs/plan-42.md''"]
      a b c d e
    by (simp add: truthy_opt_def run_env_sel)
qed

section \<open>The worktree validation comes first\<close>

lemma build_invalid:
  "load E adw = Some st \<Longrightarrow> \<not> fst (validate_worktree E adw st) \<Longrightarrow>
   build_phase E adw =
     ([Log INFO ''Validating worktree'', ValidateWorktree adw False,
       Log ERROR (''Worktree validation failed: ''
                   @ fmt_opt (snd (validate_worktree E adw st)))], 1)"
  by (simp add: build_phase_def case_prod_beta Let_def)

lemma test_invalid:
  "load E adw = Some st \<Longrightarrow> \<not> fst (validate_worktree E adw st) \<Longrightarrow>
   test_phase E sk adw =
     ([Log INFO ''Validating worktree'', ValidateWorktree adw False,
       Log ERROR (''Worktree validation failed: ''
                   @ fmt_opt (snd (validate_worktree E adw st)))], 1)"
  by (simp add: test_phase_def case_prod_beta Let_def)

lemma review_invalid:
  "load E adw = Some st \<Longrightarrow> \<not> fst (validate_worktree E adw st) \<Longrightarrow>
   review_phase E sk adw =
     ([Log INFO ''Validating worktree'', ValidateWorktree adw False,
       Log ERROR (''Worktree validation failed: ''
                   @ fmt_opt (snd (validate_worktree E adw st)))], 1)"
  by (simp add: review_phase_def case_prod_beta Let_def)

lemma build_guarded: "guarded False (fst (build_phase E adw))"
  by (simp add: build_phase_def case_prod_beta Let_def split: option.splits)

lemma test_guarded: "guarded False (fst (test_phase E sk adw))"
  by (simp add: test_phase_def case_prod_beta Let_def split: option.splits)

lemma review_guarded: "guarded False (fst (review_phase E sk adw))"
  by (simp add: review_phase_def case_prod_beta Let_def
      split: option.splits sum.splits exn.splits)

lemma mains_guarded:
  "guarded False (fst (build_main E argv))"
  "guarded False (fst (test_main E argv))"
  "guarded False (fst (review_main E argv))"
  by (simp_all add: build_main_def test_main_def review_main_def Let_def usage_guarded
      build_guarded test_guarded review_guarded)

text \<open>
  Claim C6. In the build, test and review phases every agent call of the trace comes
  after a worktree validation that succeeded. When the recorded worktree fails
  validation, the phase does three things and no more: it announces the validation,
  validates, and logs the validation error; it exits with status 1.
\<close>

theorem agent_calls_follow_validation:
  "guarded False (fst (build_main E argv))
   \<and> guarded False (fst (test_main E argv))
   \<and> guarded False (fst (review_main E argv))
   \<and> (3 \<le> length argv \<and> load E (argv ! 2) = Some st
        \<and> \<not> fst (validate_worktree E (argv ! 2) st) \<longrightarrow>
      build_main E argv =
        ([Log INFO ''Validating worktree'', ValidateWorktree (argv ! 2) False,
          Log ERROR (''Worktree validation failed: ''
                      @ fmt_opt (snd (validate_worktree E (argv ! 2) st)))], 1))
   \<and> (3 \<le> length (remove_flag ''--skip-e2e'' argv)
        \<and> load E (remove_flag ''--skip-e2e'' argv ! 2) = Some st
        \<and> \<not> fst (validate_worktree E (remove_flag ''--skip-e2e'' argv ! 2) st) \<longrightarrow>
      test_main E argv =
        ([Log INFO ''Validating worktree'',
          ValidateWorktree (remove_flag ''--skip-e2e'' argv ! 2) False,
          Log ERROR (''Worktree validation failed: ''
             @ fmt_opt (snd (validate_worktree E (remove_flag ''--skip-e2e'' argv ! 2) st)))],
         1))
   \<and> (3 \<le> length (remove_flag ''--skip-resolution'' argv)
        \<and> load E (remove_flag ''--skip-resolution'' argv ! 2) = Some st
        \<and> \<not> fst (validate_worktree E (remove_flag ''--skip-resolution'' argv ! 2) st) \<longrightarrow>
      review_main E argv =
        ([Log INFO ''Validating worktree'',
          ValidateWorktree (remove_flag ''--skip-resolution'' argv ! 2) False,
          Log ERROR (''Worktree validation failed: ''
             @ fmt_opt (snd (validate_worktree E
                               (remove_flag ''--skip-resolution'' argv ! 2) st)))],
         1))"
  by (simp add: mains_guarded build_main_phase test_main_phase review_main_phase
      build_invalid test_invalid review_invalid)

theorem agent_calls_follow_validation_witness:
  "3 \<le> length (run_argv ''phase.py'')
   \<and> remove_flag ''--skip-e2e'' (run_argv ''phase.py'') = run_argv ''phase.py''
   \<and> remove_flag ''--skip-resolution'' (run_argv ''phase.py'') = run_argv ''phase.py''
   \<and> load lost_worktree_env (run_argv ''phase.py'' ! 2) = Some run_state
   \<and> \<not> fst (validate_worktree lost_worktree_env (run_argv ''phase.py'' ! 2) run_state)
   \<and> build_main lost_worktree_env (run_argv ''phase.py'') =
       ([Log INFO ''Validating worktree'', ValidateWorktree ''abc12345'' False,
         Log ERROR ''Worktree validation failed: Worktree directory not found''], 1)
   \<and> test_main lost_worktree_env (run_argv ''phase.py'') =
       ([Log INFO ''Validating worktree'', ValidateWorktree ''abc12345'' False,
         Log ERROR ''Worktree validation failed: Worktree directory not found''], 1)
   \<and> review_main lost_worktree_env (run_argv ''phase.py'') =
       ([Log INFO ''Validating worktree'', ValidateWorktree ''abc12345'' False,
         Log ERROR ''Worktree validation failed: Worktree directory not found''], 1)
   \<and> filter is_agent_call
         (fst (build_main (run_env \<lparr>resp_output = ''ok'', success = True\<rparr> [])
                 (run_argv ''phase.py''))) \<noteq> []
   \<and> guarded False
         (fst (build_main (run_env \<lparr>resp_output = ''ok'', success = True\<rparr> [])
                 (run_argv ''phase.py'')))"
proof -
  have a: "remove_flag ''--skip-e2e'' (run_argv ''phase.py'') = run_argv ''phase.py''"
    "remove_flag ''--skip-resolution'' (run_argv ''phase.py'') = run_argv ''phase.py''"
    by (simp_all add: run_argv_plain)
  have b: "load lost_worktree_env ''abc12345'' = Some run_state"
    "validate_worktree lost_worktree_env ''abc12345'' run_state
       = (False, Some ''Worktree directory not found'')"
    by (simp_all add: lost_worktree_env_def run_env_def)
  have c: "filter is_agent_call
         (fst (build_main (run_env \<lparr>resp_output = ''ok'', success = True\<rparr> [])
                 (run_argv ''phase.py''))) \<noteq> []"
    by (simp add: build_main_def build_phase_def run_argv_plain run_env_sel Let_def
        truthy_opt_def)
  show ?thesis
    using agent_calls_follow_validation [of lost_worktree_env "run_argv ''phase.py''" run_state]
      agent_calls_follow_validation
        [of "run_env \<lparr>resp_output = ''ok'', success = True\<rparr> []"
            "run_argv ''phase.py''" run_state]
      a b c
    by (simp add: run_argv_plain fmt_opt_def)
qed

section \<open>A run without a spec file\<close>

lemma document_no_spec:
  assumes "load E adw = Some st" and "fst (validate_worktree E adw st)"
    and "\<not> truthy_opt (find_spec_file E st)"
  shows "Log WARNING ''No spec file found, documenting without spec reference''
           \<in> set (fst (document_phase E adw))"
    and "filter is_template_call (fst (document_phase E adw)) =
           [ExecuteTemplate
              \<lparr>agent_name = ''documentation_writer'', slash_command = ''/document'',
               args = [adw, [],
                       if path_exists E (review_img_path E adw)
                       then review_img_path E adw else []],
               req_adw_id = adw, working_dir = st_worktree_path st\<rparr>]"
    and "snd (document_phase E adw) =
           (if success (execute_template E
                 \<lparr>agent_name = ''documentation_writer'', slash_command = ''/document'',
                  args = [adw, [],
                          if path_exists E (review_img_path E adw)
                          then review_img_path E adw else []],
                  req_adw_id = adw, working_dir = st_worktree_path st\<rparr>)
            then 0 else 1)"
  using assms
  by (simp_all add: document_phase_def doc_request_def Let_def case_prod_beta)

lemma build_no_spec:
  assumes "load E adw = Some st" and "fst (validate_worktree E adw st)"
    and "\<not> truthy_opt (find_spec_file E st)"
  shows "build_phase E adw =
           ([Log INFO ''Validating worktree'', ValidateWorktree adw True,
             Log INFO (''Using worktree: '' @ fmt_opt (st_worktree_path st)),
             Log ERROR ''No spec file found''], 1)"
  using assms by (simp add: build_phase_def Let_def case_prod_beta)

lemma review_no_spec:
  assumes "load E adw = Some st" and "fst (validate_worktree E adw st)"
    and "\<not> truthy_opt (find_spec_file E st)"
  shows "review_phase E sk adw =
           ([Log INFO ''Validating worktree'', ValidateWorktree adw True,
             Log INFO (''Using worktree: '' @ fmt_opt (st_worktree_path st)),
             Log ERROR ''No spec file found''], 1)"
  using assms by (simp add: review_phase_def Let_def case_prod_beta)

text \<open>
  Claim C10. If no spec file can be found for the state, the documentation phase logs a
  warning and sends the agent the \<open>/document\<close> request of the documentation writer
  whose spec argument is the empty text; it exits with status 0 when that call succeeds
  and with status 1 when it fails. The build and review phases stop at the same point
  with the error line and status 1, before any agent call.
\<close>

theorem missing_spec_file_stops_build_and_review_not_documentation:
  "(3 \<le> length argv \<and> load E (argv ! 2) = Some st
      \<and> fst (validate_worktree E (argv ! 2) st) \<and> \<not> truthy_opt (find_spec_file E st) \<longrightarrow>
      Log WARNING ''No spec file found, documenting without spec reference''
        \<in> set (fst (document_main E argv))
      \<and> filter is_template_call (fst (document_main E argv)) =
           [ExecuteTemplate
              \<lparr>agent_name = ''documentation_writer'', slash_command = ''/document'',
               args = [argv ! 2, [],
                       if path_exists E (review_img_path E (argv ! 2))
                       then review_img_path E (argv ! 2) else []],
               req_adw_id = argv ! 2, working_dir = st_worktree_path st\<rparr>]
      \<and> snd (document_main E argv) =
           (if success (execute_template E
                 \<lparr>agent_name = ''documentation_writer'', slash_command = ''/document'',
                  args = [argv ! 2, [],
                          if path_exists E (review_img_path E (argv ! 2))
                          then review_img_path E (argv ! 2) else []],
                  req_adw_id = argv ! 2, working_dir = st_worktree_path st\<rparr>)
            then 0 else 1)
      \<and> build_main E argv =
           ([Log INFO ''Validating worktree'', ValidateWorktree (argv ! 2) True,
             Log INFO (''Using worktree: '' @ fmt_opt (st_worktree_path st)),
             Log ERROR ''No spec file found''], 1))
   \<and> (3 \<le> length (remove_flag ''--skip-resolution'' argv)
      \<and> load E (remove_flag ''--skip-resolution'' argv ! 2) = Some st
      \<and> fst (validate_worktree E (remove_flag ''--skip-resolution'' argv ! 2) st)
      \<and> \<not> truthy_opt (find_spec_file E st) \<longrightarrow>
      review_main E argv =
           ([Log INFO ''Validating worktree'',
             ValidateWorktree (remove_flag ''--skip-resolution'' argv ! 2) True,
             Log INFO (''Using worktree: '' @ fmt_opt (st_worktree_path st)),
             Log ERROR ''No spec file found''], 1))"
  by (simp add: document_main_phase build_main_phase review_main_phase
      document_no_spec build_no_spec review_no_spec)

theorem missing_spec_file_stops_build_and_review_not_documentation_witness:
  "3 \<le> length (run_argv ''phase.py'')
   \<and> remove_flag ''--skip-resolution'' (run_argv ''phase.py'') = run_argv ''phase.py''
   \<and> load no_spec_env (run_argv ''phase.py'' ! 2) = Some run_state
   \<and> fst (validate_worktree no_spec_env (run_argv ''phase.py'' ! 2) run_state)
   \<and> \<not> truthy_opt (find_spec_file no_spec_env run_state)
   \<and> Log WARNING ''No spec file found, documenting without spec reference''
        \<in> set (fst (document_main no_spec_env (run_argv ''phase.py'')))
   \<and> filter is_template_call (fst (document_main no_spec_env (run_argv ''phase.py''))) =
        [ExecuteTemplate
           \<lparr>agent_name = ''documentation_writer'', slash_command = ''/document'',
            args = [''abc12345'', [], []],
            req_adw_id = ''abc12345'', working_dir = Some ''trees/abc12345''\<rparr>]
   \<and> snd (document_main no_spec_env (run_argv ''phase.py'')) = 0
   \<and> snd (build_main no_spec_env (run_argv ''phase.py'')) = 1
   \<and> snd (review_main no_spec_env (run_argv ''phase.py'')) = 1"
proof -
  have a: "remove_flag ''--skip-resolution'' (run_argv ''phase.py'') = run_argv ''phase.py''"
    by (simp add: run_argv_plain)
  have b: "load no_spec_env ''abc12345'' = Some run_state"
    "validate_worktree no_spec_env ''abc12345'' run_state = (True, None)"
    "find_spec_file no_spec_env run_state = None"
    "path_exists no_spec_env (review_img_path no_spec_env ''abc12345'') = False"
    "success (execute_template no_spec_env rq)" for rq
    by (simp_all add: no_spec_env_def run_env_def)
  have c: "st_worktree_path run_state = Some ''trees/abc12345''"
    by (simp add: run_state_def)
  show ?thesis
    using missing_spec_file_stops_build_and_review_not_documentation
      [of "run_argv ''phase.py''" no_spec_env run_state]
    by (simp add: a b c run_argv_plain truthy_opt_def)
qed

section \<open>What the phases save\<close>

lemma resolve_no_save: "filter is_save (fst (resolve_issues E adw sf wp n bs)) = []"
  by (induction bs arbitrary: n) (simp_all add: Let_def split: sum.splits)

lemma skipped_no_save: "filter is_save (skipped_lines E bs) = []"
  by (induction bs) (simp_all split: sum.splits)

lemma handle_no_save: "filter is_save (fst (handle_blocking E sk adw sf wp bs)) = []"
  by (simp add: handle_blocking_def Let_def resolve_no_save skipped_no_save)

lemma no_save_notin: "filter is_save tr = [] \<Longrightarrow> Save l s \<notin> set tr"
  by (auto simp: filter_empty_conv)

lemma body_saves:
  "Save l s \<in> set (fst (review_results_body E sk adw sf st rr)) \<Longrightarrow> s = st"
  using no_save_notin [OF handle_no_save]
  by (auto simp: review_results_body_def Let_def
      split: json.splits sum.splits option.splits if_splits)

lemma review_phase_saves:
  "Save l s \<in> set (fst (review_phase E sk adw)) \<Longrightarrow> load E adw = Some s"
  by (auto simp: review_phase_def Let_def case_prod_beta
      split: option.splits sum.splits exn.splits if_splits dest: body_saves)

lemma build_phase_saves:
  "Save l s \<in> set (fst (build_phase E adw)) \<Longrightarrow> load E adw = Some s"
  by (auto simp: build_phase_def Let_def case_prod_beta split: option.splits if_splits)

lemma test_phase_saves:
  "Save l s \<in> set (fst (test_phase E sk adw)) \<Longrightarrow> load E adw = Some s"
  by (auto simp: test_phase_def Let_def case_prod_beta split: option.splits if_splits)

lemma document_phase_saves:
  "Save l s \<in> set (fst (document_phase E adw)) \<Longrightarrow> load E adw = Some s"
  by (auto simp: document_phase_def Let_def case_prod_beta split: option.splits if_splits)

lemma usage_no_save:
  "Save l s \<notin> set build_usage" "Save l s \<notin> set test_usage"
  "Save l s \<notin> set review_usage" "Save l s \<notin> set document_usage"
  "Save l s \<notin> set plan_usage"
  by (simp_all add: build_usage_def test_usage_def review_usage_def document_usage_def
      plan_usage_def)

lemma main_saves:
  "Save l s \<in> set (fst (build_main E argv)) \<Longrightarrow> load E (argv ! 2) = Some s"
  "Save l s \<in> set (fst (test_main E argv)) \<Longrightarrow>
     load E (remove_flag ''--skip-e2e'' argv ! 2) = Some s"
  "Save l s \<in> set (fst (review_main E argv)) \<Longrightarrow>
     load E (remove_flag ''--skip-resolution'' argv ! 2) = Some s"
  "Save l s \<in> set (fst (document_main E argv)) \<Longrightarrow> load E (argv ! 2) = Some s"
  by (auto simp: build_main_def test_main_def review_main_def document_main_def Let_def
      usage_no_save split: if_splits
      dest: build_phase_saves test_phase_saves review_phase_saves document_phase_saves)

lemma plan_branch_no_save: "Save l s \<notin> set (fst (plan_branch P adw iss st))"
  by (simp add: plan_branch_def Let_def case_prod_beta)

lemma plan_worktree_saves:
  "Save l s \<in> set (fst (plan_worktree E P adw iss st bn)) \<Longrightarrow>
   st_worktree_path s = Some (fst (create_worktree P adw (st_branch_name s)))
   \<and> st_backend_port s = Some (fst (find_next_available_ports P adw))
   \<and> st_frontend_port s = Some (snd (find_next_available_ports P adw))"
  by (auto simp: plan_worktree_def Let_def case_prod_beta split: if_splits)

lemma plan_with_state_saves:
  "Save l s \<in> set (fst (plan_with_state E P i adw st)) \<Longrightarrow>
   st_worktree_path s = Some (fst (create_worktree P adw (st_branch_name s)))
   \<and> st_backend_port s = Some (fst (find_next_available_ports P adw))
   \<and> st_frontend_port s = Some (snd (find_next_available_ports P adw))"
  using plan_branch_no_save
  by (auto simp: plan_with_state_def Let_def case_prod_beta
      split: if_splits option.splits sum.splits dest!: plan_worktree_saves)

lemma plan_main_saves:
  "Save l s \<in> set (fst (plan_main E P argv)) \<Longrightarrow>
   st_worktree_path s = Some (fst (create_worktree P (plan_adw_id P argv) (st_branch_name s)))
   \<and> st_backend_port s = Some (fst (find_next_available_ports P (plan_adw_id P argv)))
   \<and> st_frontend_port s = Some (snd (find_next_available_ports P (plan_adw_id P argv)))"
  by (auto simp: plan_main_def Let_def usage_no_save split: if_splits
      dest!: plan_with_state_saves)

text \<open>
  Claim C7. Whatever the build, test, review or document phase saves is the state it
  loaded, so \<open>worktree_path\<close>, \<open>branch_name\<close>, \<open>backend_port\<close> and
  \<open>frontend_port\<close> (and every other field) are unchanged by these phases. The planning
  phase is the one that sets them: every state it saves holds the worktree it created
  for the branch name in that state, and the two ports it reserved.
\<close>

theorem later_phases_save_the_state_they_loaded:
  "(Save lb s \<in> set (fst (build_main E argv)) \<longrightarrow> load E (argv ! 2) = Some s)
   \<and> (Save lt s \<in> set (fst (test_main E argv)) \<longrightarrow>
        load E (remove_flag ''--skip-e2e'' argv ! 2) = Some s)
   \<and> (Save lr s \<in> set (fst (review_main E argv)) \<longrightarrow>
        load E (remove_flag ''--skip-resolution'' argv ! 2) = Some s)
   \<and> (Save ld s \<in> set (fst (document_main E argv)) \<longrightarrow> load E (argv ! 2) = Some s)
   \<and> (Save lp sp \<in> set (fst (plan_main E P argv)) \<longrightarrow>
        st_worktree_path sp
          = Some (fst (create_worktree P (plan_adw_id P argv) (st_branch_name sp)))
        \<and> st_backend_port sp = Some (fst (find_next_available_ports P (plan_adw_id P argv)))
        \<and> st_frontend_port sp
          = Some (snd (find_next_available_ports P (plan_adw_id P argv))))"
  using main_saves [of _ s E argv] plan_main_saves [of lp sp E P argv]
  by blast

lemma clean_review_parsed:
  "json_loads_plain (review_extract clean_review_text) =
     Some (JObj [(''success'', JBool True), (''review_summary'', JStr ''ok''),
                 (''review_issues'', JArr [])])"
  by (simp add: clean_review_text_def dq_def review_extract_def strip_def isspace_def
      py_in_def Let_def json_loads_plain_def skip_ws_def json_ws_def scan_int_def
      is_digit_def digits_value_def unescape_def dict_of_def dict_set_def)

theorem later_phases_save_the_state_they_loaded_witness:
  "Save ''adw_build_iso'' run_state
     \<in> set (fst (build_main (run_env \<lparr>resp_output = clean_review_text, success = True\<rparr> [])
                  (run_argv ''phase.py'')))
   \<and> Save ''adw_test_iso'' run_state
     \<in> set (fst (test_main (run_env \<lparr>resp_output = clean_review_text, success = True\<rparr> [])
                  (run_argv ''phase.py'')))
   \<and> Save ''adw_review_iso'' run_state
     \<in> set (fst (review_main (run_env \<lparr>resp_output = clean_review_text, success = True\<rparr> [])
                  (run_argv ''phase.py'')))
   \<and> Save ''adw_document_iso'' run_state
     \<in> set (fst (document_main (run_env \<lparr>resp_output = clean_review_text, success = True\<rparr> [])
                  (run_argv ''phase.py'')))
   \<and> Save ''adw_plan_iso'' run_state
     \<in> set (fst (plan_main (run_env \<lparr>resp_output = clean_review_text, success = True\<rparr> [])
                  (run_plan_env \<lparr>resp_output = ''specs/plan-42.md'', success = True\<rparr>)
                  (run_argv ''phase.py'')))
   \<and> load (run_env \<lparr>resp_output = clean_review_text, success = True\<rparr> [])
        (run_argv ''phase.py'' ! 2) = Some run_state
   \<and> st_worktree_path run_state = Some ''trees/abc12345''
   \<and> st_backend_port run_state = Some 9100
   \<and> st_frontend_port run_state = Some 9200"
proof -
  let ?E = "run_env \<lparr>resp_output = clean_review_text, success = True\<rparr> []"
  let ?P = "run_plan_env \<lparr>resp_output = ''specs/plan-42.md'', success = True\<rparr>"
  let ?argv = "run_argv ''phase.py''"
  have b: "Save ''adw_build_iso'' run_state \<in> set (fst (build_main ?E ?argv))"
    by (simp add: build_main_def build_phase_def run_argv_plain run_env_sel Let_def
        truthy_opt_def)
  have t: "Save ''adw_test_iso'' run_state \<in> set (fst (test_main ?E ?argv))"
    by (simp add: test_main_def test_phase_def run_argv_plain run_env_sel Let_def)
  have d: "Save ''adw_document_iso'' run_state \<in> set (fst (document_main ?E ?argv))"
    by (simp add: document_main_def document_phase_def run_argv_plain run_env_sel Let_def
        truthy_opt_def)
  have r: "Save ''adw_review_iso'' run_state \<in> set (fst (review_main ?E ?argv))"
    by (simp add: review_main_def review_phase_def run_argv_plain run_env_sel Let_def
        truthy_opt_def clean_review_parsed review_results_body_def blocking_issues_of_def
        json_iter_def handle_blocking_def)
  have p: "Save ''adw_plan_iso'' run_state \<in> set (fst (plan_main ?E ?P ?argv))"
    by (simp add: plan_main_def plan_with_state_def plan_worktree_def plan_branch_def
        plan_initial_state_def plan_adw_id_def run_plan_env_def run_argv_plain run_env_sel
        Let_def truthy_opt_def plan_command_def run_state_def)
  have s: "st_worktree_path run_state = Some ''trees/abc12345''"
    "st_backend_port run_state = Some 9100" "st_frontend_port run_state = Some 9200"
    by (simp_all add: run_state_def)
  from later_phases_save_the_state_they_loaded
         [of "''adw_build_iso''" run_state ?E ?argv "''adw_test_iso''" "''adw_review_iso''"
             "''adw_document_iso''" "''adw_plan_iso''" run_state ?P]
       b t r d p s
  show ?thesis by (simp add: run_argv_plain)
qed

section \<open>A response without the expected structure\<close>

lemma plan_command_frame [simp]:
  "plan_command (st\<lparr>st_worktree_path := a, st_branch_name := b, st_backend_port := c,
                    st_frontend_port := d\<rparr>) = plan_command st"
  by (simp add: plan_command_def)

lemma plan_worktree_fallback:
  assumes "\<not> truthy_opt (snd (create_worktree P adw bn))"
    and "success (execute_template E
           (install_request adw (fst (create_worktree P adw bn))
              (fst (find_next_available_ports P adw))
              (snd (find_next_available_ports P adw))))"
    and "success (build_plan P iss (plan_command st) adw
           (Some (fst (create_worktree P adw bn))))"
    and "search_plan_file (resp_output (build_plan P iss (plan_command st) adw
           (Some (fst (create_worktree P adw bn))))) = None"
  shows "snd (plan_worktree E P adw iss st bn) = 0"
    and "Save ''adw_plan_iso''
           (st\<lparr>st_worktree_path := Some (fst (create_worktree P adw bn)),
               st_branch_name := bn,
               st_backend_port := Some (fst (find_next_available_ports P adw)),
               st_frontend_port := Some (snd (find_next_available_ports P adw)),
               st_plan_file := Some (strip (resp_output (build_plan P iss (plan_command st) adw
                  (Some (fst (create_worktree P adw bn))))))\<rparr>)
         \<in> set (fst (plan_worktree E P adw iss st bn))"
  using assms
  by (simp_all add: plan_worktree_def Let_def case_prod_beta plan_file_of_def)

lemma plan_main_reaches_worktree:
  assumes "2 \<le> length argv"
    and "fst (fetch_issue_unified P (argv ! 1)) = Some iss"
    and "\<not> truthy_opt (snd (fetch_issue_unified P (argv ! 1)))"
    and "snd (plan_branch P (plan_adw_id P argv) iss
               (plan_initial_state E (argv ! 1) (plan_adw_id P argv))) = Inr (st, bn)"
  shows "snd (plan_main E P argv) = snd (plan_worktree E P (plan_adw_id P argv) iss st bn)"
    and "set (fst (plan_worktree E P (plan_adw_id P argv) iss st bn))
           \<subseteq> set (fst (plan_main E P argv))"
  using assms
  by (auto simp add: plan_main_def plan_with_state_def Let_def case_prod_beta)

lemma review_load_failure:
  assumes "load E adw = Some st" and "fst (validate_worktree E adw st)"
    and "find_spec_file E st = Some sf" and "sf \<noteq> []"
    and "execute_template E (review_request adw sf (st_worktree_path st))
           = \<lparr>resp_output = out, success = True\<rparr>"
    and "json_loads E (review_extract out) = Inl e"
  shows "snd (review_phase E sk adw) = 1"
    and "filter is_save (fst (review_phase E sk adw)) = []"
    and "filter is_patch_call (fst (review_phase E sk adw)) = []"
    and "\<forall>msg. e = JSONDecodeError msg \<longrightarrow>
           filter is_error_log (fst (review_phase E sk adw))
             = [Log ERROR (''Failed to parse review results: '' @ msg),
                Log ERROR (''Review output: '' @ out)]"
    and "(\<forall>msg. e \<noteq> JSONDecodeError msg) \<longrightarrow>
           filter is_error_log (fst (review_phase E sk adw)) = []
           \<and> last (fst (review_phase E sk adw)) = Uncaught e"
  using assms
  by (simp_all add: review_phase_def Let_def case_prod_beta truthy_opt_def
      split: exn.splits)

lemma review_half:
  "3 \<le> length (remove_flag ''--skip-resolution'' argv)
      \<and> remove_flag ''--skip-resolution'' argv ! 2 = adw
      \<and> load E adw = Some st \<and> fst (validate_worktree E adw st)
      \<and> find_spec_file E st = Some sf \<and> sf \<noteq> []
      \<and> execute_template E (review_request adw sf (st_worktree_path st))
           = \<lparr>resp_output = out, success = True\<rparr>
      \<and> json_loads E (review_extract out) = Inl e \<longrightarrow>
      snd (review_main E argv) = 1
      \<and> filter is_save (fst (review_main E argv)) = []
      \<and> filter is_patch_call (fst (review_main E argv)) = []
      \<and> (\<forall>msg. e = JSONDecodeError msg \<longrightarrow>
            filter is_error_log (fst (review_main E argv))
              = [Log ERROR (''Failed to parse review results: '' @ msg),
                 Log ERROR (''Review output: '' @ out)])
      \<and> ((\<forall>msg. e \<noteq> JSONDecodeError msg) \<longrightarrow>
            filter is_error_log (fst (review_main E argv)) = []
            \<and> last (fst (review_main E argv)) = Uncaught e)"
proof (intro impI)
  assume h: "3 \<le> length (remove_flag ''--skip-resolution'' argv)
      \<and> remove_flag ''--skip-resolution'' argv ! 2 = adw
      \<and> load E adw = Some st \<and> fst (validate_worktree E adw st)
      \<and> find_spec_file E st = Some sf \<and> sf \<noteq> []
      \<and> execute_template E (review_request adw sf (st_worktree_path st))
           = \<lparr>resp_output = out, success = True\<rparr>
      \<and> json_loads E (review_extract out) = Inl e"
  then have m: "review_main E argv = review_phase E (''--skip-resolution'' \<in> set argv) adw"
    by (simp add: review_main_phase)
  from h have l: "load E adw = Some st" and v: "fst (validate_worktree E adw st)"
    and f: "find_spec_file E st = Some sf" and n: "sf \<noteq> []"
    and r: "execute_template E (review_request adw sf (st_worktree_path st))
           = \<lparr>resp_output = out, success = True\<rparr>"
    and j: "json_loads E (review_extract out) = Inl e"
    by simp_all
  note facts = review_load_failure [OF l v f n r j, of "''--skip-resolution'' \<in> set argv"]
  show "snd (review_main E argv) = 1
      \<and> filter is_save (fst (review_main E argv)) = []
      \<and> filter is_patch_call (fst (review_main E argv)) = []
      \<and> (\<forall>msg. e = JSONDecodeError msg \<longrightarrow>
            filter is_error_log (fst (review_main E argv))
              = [Log ERROR (''Failed to parse review results: '' @ msg),
                 Log ERROR (''Review output: '' @ out)])
      \<and> ((\<forall>msg. e \<noteq> JSONDecodeError msg) \<longrightarrow>
            filter is_error_log (fst (review_main E argv)) = []
            \<and> last (fst (review_main E argv)) = Uncaught e)"
    unfolding m using facts by (intro conjI)
qed

lemma plan_half:
  "2 \<le> length pargv
      \<and> fst (fetch_issue_unified P (pargv ! 1)) = Some iss
      \<and> \<not> truthy_opt (snd (fetch_issue_unified P (pargv ! 1)))
      \<and> snd (plan_branch P (plan_adw_id P pargv) iss
               (plan_initial_state E (pargv ! 1) (plan_adw_id P pargv))) = Inr (pst, bn)
      \<and> \<not> truthy_opt (snd (create_worktree P (plan_adw_id P pargv) bn))
      \<and> success (execute_template E
           (install_request (plan_adw_id P pargv)
              (fst (create_worktree P (plan_adw_id P pargv) bn))
              (fst (find_next_available_ports P (plan_adw_id P pargv)))
              (snd (find_next_available_ports P (plan_adw_id P pargv)))))
      \<and> success (build_plan P iss (plan_command pst) (plan_adw_id P pargv)
           (Some (fst (create_worktree P (plan_adw_id P pargv) bn))))
      \<and> search_plan_file (resp_output (build_plan P iss (plan_command pst)
           (plan_adw_id P pargv)
           (Some (fst (create_worktree P (plan_adw_id P pargv) bn))))) = None \<longrightarrow>
      snd (plan_main E P pargv) = 0
      \<and> Save ''adw_plan_iso''
           (pst\<lparr>st_worktree_path := Some (fst (create_worktree P (plan_adw_id P pargv) bn)),
                st_branch_name := bn,
                st_backend_port := Some (fst (find_next_available_ports P (plan_adw_id P pargv))),
                st_frontend_port := Some (snd (find_next_available_ports P (plan_adw_id P pargv))),
                st_plan_file := Some (strip (resp_output (build_plan P iss (plan_command pst)
                  (plan_adw_id P pargv)
                  (Some (fst (create_worktree P (plan_adw_id P pargv) bn))))))\<rparr>)
         \<in> set (fst (plan_main E P pargv))"
proof (intro conjI impI)
  assume h: "2 \<le> length pargv
      \<and> fst (fetch_issue_unified P (pargv ! 1)) = Some iss
      \<and> \<not> truthy_opt (snd (fetch_issue_unified P (pargv ! 1)))
      \<and> snd (plan_branch P (plan_adw_id P pargv) iss
               (plan_initial_state E (pargv ! 1) (plan_adw_id P pargv))) = Inr (pst, bn)
      \<and> \<not> truthy_opt (snd (create_worktree P (plan_adw_id P pargv) bn))
      \<and> success (execute_template E
           (install_request (plan_adw_id P pargv)
              (fst (create_worktree P (plan_adw_id P pargv) bn))
              (fst (find_next_available_ports P (plan_adw_id P pargv)))
              (snd (find_next_available_ports P (plan_adw_id P pargv)))))
      \<and> success (build_plan P iss (plan_command pst) (plan_adw_id P pargv)
           (Some (fst (create_worktree P (plan_adw_id P pargv) bn))))
      \<and> search_plan_file (resp_output (build_plan P iss (plan_command pst)
           (plan_adw_id P pargv)
           (Some (fst (create_worktree P (plan_adw_id P pargv) bn))))) = None"
  then have r: "snd (plan_main E P pargv)
                  = snd (plan_worktree E P (plan_adw_id P pargv) iss pst bn)"
    and sub: "set (fst (plan_worktree E P (plan_adw_id P pargv) iss pst bn))
                \<subseteq> set (fst (plan_main E P pargv))"
    using plan_main_reaches_worktree [of pargv P iss E pst bn] by simp_all
  from h show "snd (plan_main E P pargv) = 0"
    unfolding r by (intro plan_worktree_fallback(1)) simp_all
  from h have "Save ''adw_plan_iso''
           (pst\<lparr>st_worktree_path := Some (fst (create_worktree P (plan_adw_id P pargv) bn)),
                st_branch_name := bn,
                st_backend_port := Some (fst (find_next_available_ports P (plan_adw_id P pargv))),
                st_frontend_port := Some (snd (find_next_available_ports P (plan_adw_id P pargv))),
                st_plan_file := Some (strip (resp_output (build_plan P iss (plan_command pst)
                  (plan_adw_id P pargv)
                  (Some (fst (create_worktree P (plan_adw_id P pargv) bn))))))\<rparr>)
         \<in> set (fst (plan_worktree E P (plan_adw_id P pargv) iss pst bn))"
    by (intro plan_worktree_fallback(2)) simp_all
  with sub show "Save ''adw_plan_iso''
           (pst\<lparr>st_worktree_path := Some (fst (create_worktree P (plan_adw_id P pargv) bn)),
                st_branch_name := bn,
                st_backend_port := Some (fst (find_next_available_ports P (plan_adw_id P pargv))),
                st_frontend_port := Some (snd (find_next_available_ports P (plan_adw_id P pargv))),
                st_plan_file := Some (strip (resp_output (build_plan P iss (plan_command pst)
                  (plan_adw_id P pargv)
                  (Some (fst (create_worktree P (plan_adw_id P pargv) bn))))))\<rparr>)
         \<in> set (fst (plan_main E P pargv))"
    by blast
qed

text \<open>
  Claim C4, as amended. The review phase fails explicitly when \<open>json.loads\<close> does not
  return a document for the text extracted from the agent's output: it exits with status
  1, saves nothing and makes no patch call. When \<open>json.loads\<close> raised
  \<open>JSONDecodeError\<close>, the error lines of the run are the decode error and the raw
  output; any other exception of \<open>json.loads\<close> is not caught, ends the run and leaves
  no error line. The planning phase does not fail: when no \<open>specs/*.md\<close> path appears
  in the response, it takes the whole response, stripped, as the plan file, saves it in
  the state and exits with status 0.
\<close>

theorem unparseable_review_is_fatal_but_plan_falls_back:
  "(3 \<le> length (remove_flag ''--skip-resolution'' argv)
      \<and> remove_flag ''--skip-resolution'' argv ! 2 = adw
      \<and> load E adw = Some st \<and> fst (validate_worktree E adw st)
      \<and> find_spec_file E st = Some sf \<and> sf \<noteq> []
      \<and> execute_template E (review_request adw sf (st_worktree_path st))
           = \<lparr>resp_output = out, success = True\<rparr>
      \<and> json_loads E (review_extract out) = Inl e \<longrightarrow>
      snd (review_main E argv) = 1
      \<and> filter is_save (fst (review_main E argv)) = []
      \<and> filter is_patch_call (fst (review_main E argv)) = []
      \<and> (\<forall>msg. e = JSONDecodeError msg \<longrightarrow>
            filter is_error_log (fst (review_main E argv))
              = [Log ERROR (''Failed to parse review results: '' @ msg),
                 Log ERROR (''Review output: '' @ out)])
      \<and> ((\<forall>msg. e \<noteq> JSONDecodeError msg) \<longrightarrow>
            filter is_error_log (fst (review_main E argv)) = []
            \<and> last (fst (review_main E argv)) = Uncaught e))
   \<and> (2 \<le> length pargv
      \<and> fst (fetch_issue_unified P (pargv ! 1)) = Some iss
      \<and> \<not> truthy_opt (snd (fetch_issue_unified P (pargv ! 1)))
      \<and> snd (plan_branch P (plan_adw_id P pargv) iss
               (plan_initial_state E (pargv ! 1) (plan_adw_id P pargv))) = Inr (pst, bn)
      \<and> \<not> truthy_opt (snd (create_worktree P (plan_adw_id P pargv) bn))
      \<and> success (execute_template E
           (install_request (plan_adw_id P pargv)
              (fst (create_worktree P (plan_adw_id P pargv) bn))
              (fst (find_next_available_ports P (plan_adw_id P pargv)))
              (snd (find_next_available_ports P (plan_adw_id P pargv)))))
      \<and> success (build_plan P iss (plan_command pst) (plan_adw_id P pargv)
           (Some (fst (create_worktree P (plan_adw_id P pargv) bn))))
      \<and> search_plan_file (resp_output (build_plan P iss (plan_command pst)
           (plan_adw_id P pargv)
           (Some (fst (create_worktree P (plan_adw_id P pargv) bn))))) = None \<longrightarrow>
      snd (plan_main E P pargv) = 0
      \<and> Save ''adw_plan_iso''
           (pst\<lparr>st_worktree_path := Some (fst (create_worktree P (plan_adw_id P pargv) bn)),
                st_branch_name := bn,
                st_backend_port := Some (fst (find_next_available_ports P (plan_adw_id P pargv))),
                st_frontend_port := Some (snd (find_next_available_ports P (plan_adw_id P pargv))),
                st_plan_file := Some (strip (resp_output (build_plan P iss (plan_command pst)
                  (plan_adw_id P pargv)
                  (Some (fst (create_worktree P (plan_adw_id P pargv) bn))))))\<rparr>)
         \<in> set (fst (plan_main E P pargv)))"
  using review_half [of argv adw E st sf out e] plan_half [of pargv P iss E pst bn]
  by (rule conjI)

theorem unparseable_review_is_fatal_but_plan_falls_back_witness:
  "json_loads_plain (review_extract ''The implementation looks fine.'') = None
   \<and> snd (review_main (run_env \<lparr>resp_output = ''The implementation looks fine.'',
                                  success = True\<rparr> [])
           (run_argv ''adw_review_iso.py'')) = 1
   \<and> filter is_save (fst (review_main
           (run_env \<lparr>resp_output = ''The implementation looks fine.'', success = True\<rparr> [])
           (run_argv ''adw_review_iso.py''))) = []
   \<and> filter is_patch_call (fst (review_main
           (run_env \<lparr>resp_output = ''The implementation looks fine.'', success = True\<rparr> [])
           (run_argv ''adw_review_iso.py''))) = []
   \<and> filter is_error_log (fst (review_main
           (run_env \<lparr>resp_output = ''The implementation looks fine.'', success = True\<rparr> [])
           (run_argv ''adw_review_iso.py'')))
      = [Log ERROR ''Failed to parse review results: invalid JSON'',
         Log ERROR ''Review output: The implementation looks fine.'']
   \<and> snd (review_main nesting_env (run_argv ''adw_review_iso.py'')) = 1
   \<and> filter is_error_log (fst (review_main nesting_env (run_argv ''adw_review_iso.py''))) = []
   \<and> last (fst (review_main nesting_env (run_argv ''adw_review_iso.py'')))
      = Uncaught RecursionError
   \<and> search_plan_file ''  Plan written for issue 42 '' = None
   \<and> snd (plan_main
           (run_env \<lparr>resp_output = ''The implementation looks fine.'', success = True\<rparr> [])
           (run_plan_env \<lparr>resp_output = ''  Plan written for issue 42 '', success = True\<rparr>)
           (run_argv ''adw_plan_iso.py'')) = 0
   \<and> Save ''adw_plan_iso'' (run_state\<lparr>st_plan_file := Some ''Plan written for issue 42''\<rparr>)
      \<in> set (fst (plan_main
           (run_env \<lparr>resp_output = ''The implementation looks fine.'', success = True\<rparr> [])
           (run_plan_env \<lparr>resp_output = ''  Plan written for issue 42 '', success = True\<rparr>)
           (run_argv ''adw_plan_iso.py'')))"
proof -
  let ?E = "run_env \<lparr>resp_output = ''The implementation looks fine.'', success = True\<rparr> []"
  let ?P = "run_plan_env \<lparr>resp_output = ''  Plan written for issue 42 '', success = True\<rparr>"
  have x: "review_extract ''The implementation looks fine.'' = ''The implementation looks fine.''"
    by (simp add: review_extract_def strip_def isspace_def py_in_def Let_def)
  have j: "json_loads_plain ''The implementation looks fine.'' = None"
    by (simp add: json_loads_plain_def skip_ws_def json_ws_def scan_int_def is_digit_def)
  have s: "search_plan_file ''  Plan written for issue 42 '' = None"
    by (simp add: match_plan_at_def)
  have w: "strip ''  Plan written for issue 42 '' = ''Plan written for issue 42''"
    by (simp add: strip_def isspace_def)
  have b: "snd (plan_branch ?P (plan_adw_id ?P (run_argv ''adw_plan_iso.py''))
                  \<lparr>title = ''Add export'', body = ''Export the report''\<rparr>
                  (plan_initial_state ?E (run_argv ''adw_plan_iso.py'' ! 1)
                     (plan_adw_id ?P (run_argv ''adw_plan_iso.py''))))
             = Inr (run_state, Some ''feat-issue-42-adw-abc12345-review'')"
    by (simp add: plan_branch_def plan_adw_id_def plan_initial_state_def run_plan_env_def
        run_argv_def run_env_sel truthy_opt_def run_state_def)
  have a: "plan_adw_id ?P (run_argv ''adw_plan_iso.py'') = ''abc12345''"
    by (simp add: plan_adw_id_def run_plan_env_def run_argv_def)
  have n: "load nesting_env ''abc12345'' = Some run_state"
    "validate_worktree nesting_env ''abc12345'' run_state = (True, None)"
    "find_spec_file nesting_env run_state = Some ''specs/plan-42.md''"
    "execute_template nesting_env rq = \<lparr>resp_output = ''[[[[[[[['', success = True\<rparr>"
    "json_loads nesting_env t = Inl RecursionError" for rq t
    by (simp_all add: nesting_env_def run_env_def run_state_def)
  have first: "snd (review_main ?E (run_argv ''adw_review_iso.py'')) = 1
     \<and> filter is_save (fst (review_main ?E (run_argv ''adw_review_iso.py''))) = []
     \<and> filter is_patch_call (fst (review_main ?E (run_argv ''adw_review_iso.py''))) = []
     \<and> filter is_error_log (fst (review_main ?E (run_argv ''adw_review_iso.py'')))
        = [Log ERROR ''Failed to parse review results: invalid JSON'',
           Log ERROR ''Review output: The implementation looks fine.'']
     \<and> snd (plan_main ?E ?P (run_argv ''adw_plan_iso.py'')) = 0
     \<and> Save ''adw_plan_iso'' (run_state\<lparr>st_plan_file := Some ''Plan written for issue 42''\<rparr>)
        \<in> set (fst (plan_main ?E ?P (run_argv ''adw_plan_iso.py'')))"
    using unparseable_review_is_fatal_but_plan_falls_back
         [where E = ?E and argv = "run_argv ''adw_review_iso.py''" and adw = "''abc12345''"
            and st = run_state and sf = "''specs/plan-42.md''"
            and out = "''The implementation looks fine.''"
            and e = "JSONDecodeError ''invalid JSON''"
            and P = ?P and pargv = "run_argv ''adw_plan_iso.py''"
            and iss = "\<lparr>title = ''Add export'', body = ''Export the report''\<rparr>"
            and pst = run_state and bn = "Some ''feat-issue-42-adw-abc12345-review''"]
       x j s w b a
    by (simp add: run_argv_plain run_env_def truthy_opt_def run_plan_env_def run_state_def)
  have second: "snd (review_main nesting_env (run_argv ''adw_review_iso.py'')) = 1
     \<and> filter is_error_log (fst (review_main nesting_env (run_argv ''adw_review_iso.py''))) = []
     \<and> last (fst (review_main nesting_env (run_argv ''adw_review_iso.py'')))
        = Uncaught RecursionError"
    using unparseable_review_is_fatal_but_plan_falls_back
         [where E = nesting_env and argv = "run_argv ''adw_review_iso.py''"
            and adw = "''abc12345''" and st = run_state and sf = "''specs/plan-42.md''"
            and out = "''[[[[[[[[''" and e = RecursionError]
       n
    by (simp add: run_argv_plain)
  from first second x j s show ?thesis by simp
qed

text \<open>
  Claim C4 as stated fails for the planning phase: the agent's plan response names no
  \<open>specs/*.md\<close> path, and the phase exits with status 0 after saving the response
  text itself as the plan file.
\<close>

theorem plan_phase_takes_raw_response_counterexample:
  "search_plan_file ''Plan written for issue 42'' = None
   \<and> snd (plan_main (run_env \<lparr>resp_output = ''ok'', success = True\<rparr> [])
           (run_plan_env \<lparr>resp_output = ''Plan written for issue 42'', success = True\<rparr>)
           [''adw_plan_iso.py'', ''42'', ''nostate1'']) = 0
   \<and> Save ''adw_plan_iso''
        \<lparr>st_adw_id = ''nostate1'', st_issue_number = Some ''42'',
         st_branch_name = Some ''feat-issue-42-adw-new-export'',
         st_worktree_path = Some ''trees/nostate1'',
         st_backend_port = Some 9100, st_frontend_port = Some 9200,
         st_plan_file = Some ''Plan written for issue 42'',
         st_issue_class = Some ''/feature''\<rparr>
      \<in> set (fst (plan_main (run_env \<lparr>resp_output = ''ok'', success = True\<rparr> [])
           (run_plan_env \<lparr>resp_output = ''Plan written for issue 42'', success = True\<rparr>)
           [''adw_plan_iso.py'', ''42'', ''nostate1'']))"
  by (simp add: plan_main_def plan_with_state_def plan_worktree_def plan_branch_def
      plan_initial_state_def plan_adw_id_def run_plan_env_def run_env_def Let_def
      truthy_opt_def new_state_def plan_command_def match_plan_at_def plan_file_of_def
      strip_def isspace_def)

section \<open>The findings of a review and their resolution\<close>

lemma complete_findingD:
  assumes "complete_finding b"
  shows "\<exists>num d r. issue_item b ''review_issue_number'' = Inr num
           \<and> issue_item b ''issue_description'' = Inr d
           \<and> issue_item b ''issue_resolution'' = Inr r"
  using assms
  by (auto simp: complete_finding_def issue_item_def dict_item_def split: json.splits)

lemma resolve_calls_prefix:
  "prefix (filter is_patch_call (fst (resolve_issues E adw sf wp n bs)))
          (map (\<lambda>b. CreatePatch (finding_request adw sf wp b)) bs)"
  by (induction bs arbitrary: n)
     (auto simp: Let_def finding_request_def split: sum.splits)

lemma resolve_no_template:
  "filter is_template_call (fst (resolve_issues E adw sf wp n bs)) = []"
  by (induction bs arbitrary: n) (simp_all add: Let_def split: sum.splits)

lemma skipped_no_template: "filter is_template_call (skipped_lines E bs) = []"
  by (induction bs) (simp_all split: sum.splits)

lemma skipped_no_patch: "filter is_patch_call (skipped_lines E bs) = []"
  by (induction bs) (simp_all split: sum.splits)

lemma handle_no_template:
  "filter is_template_call (fst (handle_blocking E sk adw sf wp bs)) = []"
  by (simp add: handle_blocking_def Let_def resolve_no_template skipped_no_template)

lemma resolve_step:
  assumes "complete_finding b"
  shows "resolve_issues E adw sf wp n (b # bs) =
     (let rq = finding_request adw sf wp b;
          patch_response = snd (create_and_implement_patch E n rq);
          t2 = [Log INFO (''Resolving issue '' @ finding_field E b ''review_issue_number''
                           @ '': '' @ finding_field E b ''issue_description''),
                CreatePatch rq] in
      if \<not> success patch_response then
        (t2 @ [Log ERROR (''Failed to resolve issue: '' @ resp_output patch_response)], Some 1)
      else
        (t2 @ [Log INFO (''Resolved issue '' @ finding_field E b ''review_issue_number'')]
            @ fst (resolve_issues E adw sf wp (Suc n) bs),
         snd (resolve_issues E adw sf wp (Suc n) bs)))"
  using complete_findingD [OF assms]
  by (auto simp: Let_def finding_request_def finding_field_def)

lemma resolve_all:
  assumes "\<forall>b\<in>set bs. complete_finding b"
    and "\<forall>i<length bs. success (snd (create_and_implement_patch E (n + i)
                                      (finding_request adw sf wp (bs ! i))))"
  shows "snd (resolve_issues E adw sf wp n bs) = None
       \<and> filter is_patch_call (fst (resolve_issues E adw sf wp n bs))
           = map (\<lambda>b. CreatePatch (finding_request adw sf wp b)) bs"
  using assms
proof (induction bs arbitrary: n)
  case Nil
  then show ?case by simp
next
  case (Cons b bs)
  have c: "complete_finding b" using Cons.prems(1) by simp
  have s0: "success (snd (create_and_implement_patch E n (finding_request adw sf wp b)))"
    using Cons.prems(2) [rule_format, of 0] by simp
  have rest: "\<forall>i<length bs. success (snd (create_and_implement_patch E (Suc n + i)
                                      (finding_request adw sf wp (bs ! i))))"
    using Cons.prems(2) by (auto dest: spec [where x = "Suc i" for i])
  have ih: "snd (resolve_issues E adw sf wp (Suc n) bs) = None
       \<and> filter is_patch_call (fst (resolve_issues E adw sf wp (Suc n) bs))
           = map (\<lambda>b. CreatePatch (finding_request adw sf wp b)) bs"
    using Cons.IH [of "Suc n"] Cons.prems(1) rest by simp
  show ?case
    using ih s0 by (simp add: resolve_step [OF c] Let_def del: resolve_issues.simps)
qed

lemma resolve_first_failure:
  assumes "k < length bs"
    and "\<forall>i\<le>k. complete_finding (bs ! i)"
    and "\<forall>i<k. success (snd (create_and_implement_patch E (n + i)
                               (finding_request adw sf wp (bs ! i))))"
    and "\<not> success (snd (create_and_implement_patch E (n + k)
                           (finding_request adw sf wp (bs ! k))))"
  shows "snd (resolve_issues E adw sf wp n bs) = Some 1
       \<and> filter is_patch_call (fst (resolve_issues E adw sf wp n bs))
           = map (\<lambda>b. CreatePatch (finding_request adw sf wp b)) (take (Suc k) bs)
       \<and> filter is_error_log (fst (resolve_issues E adw sf wp n bs))
           = [Log ERROR (''Failed to resolve issue: ''
                @ resp_output (snd (create_and_implement_patch E (n + k)
                                      (finding_request adw sf wp (bs ! k)))))]
       \<and> suffix [Log INFO (''Resolving issue ''
                    @ finding_field E (bs ! k) ''review_issue_number''
                    @ '': '' @ finding_field E (bs ! k) ''issue_description''),
                 CreatePatch (finding_request adw sf wp (bs ! k)),
                 Log ERROR (''Failed to resolve issue: ''
                    @ resp_output (snd (create_and_implement_patch E (n + k)
                                          (finding_request adw sf wp (bs ! k)))))]
                (fst (resolve_issues E adw sf wp n bs))"
  using assms
proof (induction bs arbitrary: n k)
  case Nil
  then show ?case by simp
next
  case (Cons b bs)
  have c: "complete_finding b" using Cons.prems(2) [rule_format, of 0] by simp
  show ?case
  proof (cases k)
    case 0
    then show ?thesis
      using Cons.prems(4) by (simp add: resolve_step [OF c] Let_def suffix_def del: resolve_issues.simps)
  next
    case (Suc j)
    have s0: "success (snd (create_and_implement_patch E n (finding_request adw sf wp b)))"
      using Cons.prems(3) [rule_format, of 0] Suc by simp
    have j: "j < length bs" using Cons.prems(1) Suc by simp
    have cj: "\<forall>i\<le>j. complete_finding (bs ! i)"
    proof (intro allI impI)
      fix i assume "i \<le> j"
      then show "complete_finding (bs ! i)"
        using Cons.prems(2) [rule_format, of "Suc i"] Suc by simp
    qed
    have sj: "\<forall>i<j. success (snd (create_and_implement_patch E (Suc n + i)
                               (finding_request adw sf wp (bs ! i))))"
    proof (intro allI impI)
      fix i assume "i < j"
      then show "success (snd (create_and_implement_patch E (Suc n + i)
                               (finding_request adw sf wp (bs ! i))))"
        using Cons.prems(3) [rule_format, of "Suc i"] Suc by simp
    qed
    have fj: "\<not> success (snd (create_and_implement_patch E (Suc n + j)
                           (finding_request adw sf wp (bs ! j))))"
      using Cons.prems(4) Suc by simp
    note ih = Cons.IH [OF j cj sj fj]
    show ?thesis
      using ih s0 Suc
      by (simp add: resolve_step [OF c] Let_def suffix_def del: resolve_issues.simps)
         (metis append_Cons)
  qed
qed

lemma skipped_lines_all:
  "\<forall>b\<in>set bs. \<exists>d. issue_item b ''issue_description'' = Inr d \<Longrightarrow>
   skipped_lines E bs
     = map (\<lambda>b. Log ERROR (''  - '' @ finding_field E b ''issue_description'')) bs"
  by (induction bs) (auto simp: finding_field_def)

lemma review_stopped:
  assumes "load E adw = Some st" and "fst (validate_worktree E adw st)"
    and "find_spec_file E st = Some sf" and "sf \<noteq> []"
    and "execute_template E (review_request adw sf (st_worktree_path st))
           = \<lparr>resp_output = out, success = True\<rparr>"
    and "json_loads E (review_extract out) = Inr (JObj kvs)"
    and "blocking_issues_of kvs = Inr bs"
    and "snd (handle_blocking E sk adw sf (st_worktree_path st) bs) = Some code"
  shows "review_phase E sk adw =
     ([Log INFO ''Validating worktree'', ValidateWorktree adw True,
       Log INFO (''Using worktree: '' @ fmt_opt (st_worktree_path st)),
       Log INFO (''Using spec file: '' @ sf),
       Log INFO ''Running review'',
       ExecuteTemplate (review_request adw sf (st_worktree_path st)),
       Log INFO (''Review completed: '' @
         (case map_of kvs ''review_summary'' of
            None \<Rightarrow> ''No summary'' | Some v \<Rightarrow> fmt_json E v))]
      @ fst (handle_blocking E sk adw sf (st_worktree_path st) bs), code)"
  using assms
  by (simp add: review_phase_def review_results_body_def Let_def case_prod_beta
      truthy_opt_def)

lemma review_finished:
  assumes "load E adw = Some st" and "fst (validate_worktree E adw st)"
    and "find_spec_file E st = Some sf" and "sf \<noteq> []"
    and "execute_template E (review_request adw sf (st_worktree_path st))
           = \<lparr>resp_output = out, success = True\<rparr>"
    and "json_loads E (review_extract out) = Inr (JObj kvs)"
    and "blocking_issues_of kvs = Inr bs"
    and "snd (handle_blocking E sk adw sf (st_worktree_path st) bs) = None"
  shows "snd (review_phase E sk adw) = 0"
    and "filter is_patch_call (fst (review_phase E sk adw))
           = filter is_patch_call (fst (handle_blocking E sk adw sf (st_worktree_path st) bs))"
    and "filter is_template_call (fst (review_phase E sk adw))
           = [ExecuteTemplate (review_request adw sf (st_worktree_path st))]"
    and "Save ''adw_review_iso'' st \<in> set (fst (review_phase E sk adw))"
  using assms
  by (simp_all add: review_phase_def review_results_body_def Let_def case_prod_beta
      truthy_opt_def handle_no_template)

lemma review_template_once:
  assumes "load E adw = Some st" and "fst (validate_worktree E adw st)"
    and "find_spec_file E st = Some sf" and "sf \<noteq> []"
    and "execute_template E (review_request adw sf (st_worktree_path st))
           = \<lparr>resp_output = out, success = True\<rparr>"
    and "json_loads E (review_extract out) = Inr (JObj kvs)"
    and "blocking_issues_of kvs = Inr bs"
  shows "filter is_template_call (fst (review_phase E sk adw))
           = [ExecuteTemplate (review_request adw sf (st_worktree_path st))]"
proof (cases "snd (handle_blocking E sk adw sf (st_worktree_path st) bs)")
  case None
  then show ?thesis using review_finished(3) [OF assms] by simp
next
  case (Some code)
  then show ?thesis
    by (simp add: review_stopped [OF assms Some] handle_no_template)
qed

lemma review_patch_calls:
  assumes "load E adw = Some st" and "fst (validate_worktree E adw st)"
    and "find_spec_file E st = Some sf" and "sf \<noteq> []"
    and "execute_template E (review_request adw sf (st_worktree_path st))
           = \<lparr>resp_output = out, success = True\<rparr>"
    and "json_loads E (review_extract out) = Inr (JObj kvs)"
    and "blocking_issues_of kvs = Inr bs"
  shows "filter is_patch_call (fst (review_phase E sk adw))
           = filter is_patch_call (fst (handle_blocking E sk adw sf (st_worktree_path st) bs))"
proof (cases "snd (handle_blocking E sk adw sf (st_worktree_path st) bs)")
  case None
  then show ?thesis using review_finished(2) [OF assms] by simp
next
  case (Some code)
  then show ?thesis
    by (simp add: review_stopped [OF assms Some])
qed

lemma handle_skipped:
  assumes "bs \<noteq> []"
  shows "handle_blocking E True adw sf wp bs =
     (Log ERROR (''Found '' @ show_nat (length bs) @ '' blocking issues (resolution skipped)'')
        # skipped_lines E bs, Some 1)"
  using assms by (simp add: handle_blocking_def Let_def)

lemma handle_resolving:
  "handle_blocking E False adw sf wp bs =
     (if bs \<noteq> [] then
        (Log WARNING (''Found '' @ show_nat (length bs)
                       @ '' blocking issues, attempting resolution'')
           # fst (resolve_issues E adw sf wp 0 bs),
         snd (resolve_issues E adw sf wp 0 bs))
      else ([], None))"
  by (simp add: handle_blocking_def Let_def)

subsection \<open>The concrete reviews\<close>

lemma one_blocker_parsed:
  "json_loads_plain (review_extract one_blocker_review) = Some (JObj one_blocker_doc)"
  by code_simp

lemma two_blocker_parsed:
  "json_loads_plain (review_extract two_blocker_review) = Some (JObj two_blocker_doc)"
  by code_simp

lemma blockers_of_docs:
  "blocking_issues_of one_blocker_doc
     = Inr [finding_doc 1 ''no export button'' ''add the button'' ''blocker'']"
  "blocking_issues_of two_blocker_doc
     = Inr [finding_doc 1 ''no export button'' ''add the button'' ''blocker'',
            finding_doc 3 ''no CSV header'' ''write the header'' ''blocker'']"
  by (simp_all add: one_blocker_doc_def two_blocker_doc_def blocking_issues_of_def
      json_iter_def finding_doc_def json_get_def)

lemma run_env_patch:
  "create_and_implement_patch (run_env a ps) n rq =
     (None, if n < length ps then ps ! n
            else \<lparr>resp_output = ''no answer'', success = False\<rparr>)"
  by (simp add: run_env_def)

lemma finding_doc_fields:
  "issue_item (finding_doc n d r s) ''review_issue_number'' = Inr (JInt n)"
  "issue_item (finding_doc n d r s) ''issue_description'' = Inr (JStr d)"
  "issue_item (finding_doc n d r s) ''issue_resolution'' = Inr (JStr r)"
  "complete_finding (finding_doc n d r s)"
  "finding_field E (finding_doc n d r s) ''issue_description'' = d"
  "finding_field (run_env a ps) (finding_doc n d r s) ''review_issue_number'' = show_int n"
  by (simp_all add: finding_doc_def issue_item_def dict_item_def complete_finding_def
      finding_field_def fmt_json_def run_env_def py_str_plain_def)

lemma digits:
  "show_int 1 = ''1''" "show_int 3 = ''3''" "show_nat 1 = ''1''" "show_nat 2 = ''2''"
  "show_nat (Suc 0) = ''1''"
  "char_of (49 :: nat) = CHR ''1''" "char_of (50 :: nat) = CHR ''2''"
  "char_of (51 :: nat) = CHR ''3''"
  by code_simp+

lemma skip_argv_facts:
  "''--skip-resolution'' \<in> set skip_argv"
  "remove_flag ''--skip-resolution'' skip_argv = [''adw_review_iso.py'', ''42'', ''abc12345'']"
  by (simp_all add: skip_argv_def remove_flag_def)

lemma run_state_fields:
  "st_worktree_path run_state = Some ''trees/abc12345''"
  "st_plan_file run_state = Some ''specs/plan-42.md''"
  by (simp_all add: run_state_def)

subsection \<open>Resolution skipped\<close>

lemma blocking_filter_dicts:
  "list_all is_dict issues \<Longrightarrow> blocking_filter issues = Inr (filter is_blocker issues)"
  by (induction issues)
     (auto simp: is_dict_def is_blocker_def json_get_def split: json.splits)

lemma blocking_filter_other:
  "\<not> list_all is_dict issues \<Longrightarrow> blocking_filter issues = Inl AttributeError"
  by (induction issues)
     (auto simp: is_dict_def json_get_def split: json.splits sum.splits)

lemma skipped_lines_until_gap:
  "list_all is_dict bs \<Longrightarrow>
   skipped_lines E bs
     = map (\<lambda>b. Log ERROR (''  - '' @ finding_field E b ''issue_description''))
         (takeWhile has_description bs)
       @ (if list_all has_description bs then []
          else [Uncaught (KeyError ''issue_description'')])"
  by (induction bs)
     (auto simp: is_dict_def has_description_def finding_field_def issue_item_def
        dict_item_def split: json.splits option.splits)

lemma blockers_are_dicts: "list_all is_dict (filter is_blocker issues)"
  by (induction issues) (auto simp: is_dict_def is_blocker_def split: json.splits)

lemma review_filter_raises:
  assumes "load E adw = Some st" and "fst (validate_worktree E adw st)"
    and "find_spec_file E st = Some sf" and "sf \<noteq> []"
    and "execute_template E (review_request adw sf (st_worktree_path st))
           = \<lparr>resp_output = out, success = True\<rparr>"
    and "json_loads E (review_extract out) = Inr (JObj kvs)"
    and "blocking_issues_of kvs = Inl e"
  shows "snd (review_phase E sk adw) = 1"
    and "filter is_patch_call (fst (review_phase E sk adw)) = []"
    and "filter is_save (fst (review_phase E sk adw)) = []"
    and "filter is_error_log (fst (review_phase E sk adw)) = []"
    and "last (fst (review_phase E sk adw)) = Uncaught e"
  using assms
  by (simp_all add: review_phase_def review_results_body_def Let_def case_prod_beta
      truthy_opt_def)

text \<open>
  Claim C1, as amended. A review invocation with \<open>--skip-resolution\<close> whose parsed
  outcome lists at least one finding of severity \<open>blocker\<close> exits with status 1, makes
  no \<open>create_and_implement_patch\<close> call and saves nothing. When every listed finding
  is a dict, its error lines are the number of blocking findings and then the
  descriptions of the blocking findings in the order received, up to the first one
  that has no description, where the run ends with a \<open>KeyError\<close>. When some listed
  finding is no dict, the run ends with an \<open>AttributeError\<close> before any error line.
\<close>

theorem skipped_resolution_aborts_and_reports_blockers:
  assumes "''--skip-resolution'' \<in> set argv"
    and "3 \<le> length (remove_flag ''--skip-resolution'' argv)"
    and "remove_flag ''--skip-resolution'' argv ! 2 = adw"
    and "load E adw = Some st" and "fst (validate_worktree E adw st)"
    and "find_spec_file E st = Some sf" and "sf \<noteq> []"
    and "execute_template E (review_request adw sf (st_worktree_path st))
           = \<lparr>resp_output = out, success = True\<rparr>"
    and "json_loads E (review_extract out) = Inr (JObj kvs)"
    and "map_of kvs ''review_issues'' = Some (JArr issues)"
    and "\<exists>i\<in>set issues. is_blocker i"
  shows "snd (review_main E argv) = 1
       \<and> filter is_patch_call (fst (review_main E argv)) = []
       \<and> filter is_save (fst (review_main E argv)) = []
       \<and> (list_all is_dict issues \<longrightarrow>
            filter is_error_log (fst (review_main E argv))
              = Log ERROR (''Found '' @ show_nat (length (filter is_blocker issues))
                            @ '' blocking issues (resolution skipped)'')
                # map (\<lambda>b. Log ERROR (''  - '' @ finding_field E b ''issue_description''))
                    (takeWhile has_description (filter is_blocker issues)))
       \<and> (list_all is_dict issues
            \<and> \<not> list_all has_description (filter is_blocker issues) \<longrightarrow>
            last (fst (review_main E argv)) = Uncaught (KeyError ''issue_description''))
       \<and> (\<not> list_all is_dict issues \<longrightarrow>
            filter is_error_log (fst (review_main E argv)) = []
            \<and> last (fst (review_main E argv)) = Uncaught AttributeError)"
proof (cases "list_all is_dict issues")
  case True
  have m: "review_main E argv = review_phase E True adw"
    using assms(1,2,3) by (simp add: review_main_phase)
  have b: "blocking_issues_of kvs = Inr (filter is_blocker issues)"
    using assms(10) True
    by (simp add: blocking_issues_of_def json_iter_def blocking_filter_dicts)
  have ne: "filter is_blocker issues \<noteq> []"
    using assms(11) by (auto simp: filter_empty_conv)
  have h: "snd (handle_blocking E True adw sf (st_worktree_path st)
                  (filter is_blocker issues)) = Some 1"
    using ne by (simp add: handle_skipped)
  note p = review_stopped [OF assms(4-9) b h]
  show ?thesis
    unfolding m p
    using True ne
    by (simp add: handle_skipped skipped_no_patch skipped_no_save
        skipped_lines_until_gap [OF blockers_are_dicts])
next
  case False
  have m: "review_main E argv = review_phase E True adw"
    using assms(1,2,3) by (simp add: review_main_phase)
  have b: "blocking_issues_of kvs = Inl AttributeError"
    using assms(10) False
    by (simp add: blocking_issues_of_def json_iter_def blocking_filter_other)
  note r = review_filter_raises [OF assms(4-9) b, of True]
  show ?thesis
    unfolding m using False r by simp
qed

lemma gap_parsed:
  "json_loads_plain (review_extract gap_review) = Some (JObj gap_doc)"
  by code_simp

theorem skipped_resolution_aborts_and_reports_blockers_witness:
  "snd (review_main (run_env \<lparr>resp_output = two_blocker_review, success = True\<rparr> [])
          skip_argv) = 1
   \<and> filter is_patch_call
        (fst (review_main (run_env \<lparr>resp_output = two_blocker_review, success = True\<rparr> [])
                skip_argv)) = []
   \<and> filter is_save
        (fst (review_main (run_env \<lparr>resp_output = two_blocker_review, success = True\<rparr> [])
                skip_argv)) = []
   \<and> filter is_error_log
        (fst (review_main (run_env \<lparr>resp_output = two_blocker_review, success = True\<rparr> [])
                skip_argv))
      = [Log ERROR ''Found 2 blocking issues (resolution skipped)'',
         Log ERROR ''  - no export button'',
         Log ERROR ''  - no CSV header'']
   \<and> snd (review_main (run_env \<lparr>resp_output = gap_review, success = True\<rparr> [])
            skip_argv) = 1
   \<and> last (fst (review_main (run_env \<lparr>resp_output = gap_review, success = True\<rparr> [])
                   skip_argv)) = Uncaught (KeyError ''issue_description'')"
proof -
  have d: "is_blocker (finding_doc n x r ''blocker'')"
    "\<not> is_blocker (finding_doc n x r ''tech_debt'')"
    "is_dict (finding_doc n x r s)" "has_description (finding_doc n x r s)"
    "is_blocker (JObj [(''review_issue_number'', JInt 2), (''issue_severity'', JStr ''blocker'')])"
    "is_dict (JObj [(''review_issue_number'', JInt 2), (''issue_severity'', JStr ''blocker'')])"
    "\<not> has_description
         (JObj [(''review_issue_number'', JInt 2), (''issue_severity'', JStr ''blocker'')])"
    for n x r s
    by (simp_all add: is_blocker_def is_dict_def has_description_def finding_doc_def)
  have k: "map_of two_blocker_doc ''review_issues''
             = Some (JArr [finding_doc 1 ''no export button'' ''add the button'' ''blocker'',
                           finding_doc 2 ''uneven spacing'' ''align columns'' ''tech_debt'',
                           finding_doc 3 ''no CSV header'' ''write the header'' ''blocker''])"
    "map_of gap_doc ''review_issues''
       = Some (JArr [finding_doc 1 ''no export button'' ''add the button'' ''blocker'',
                     JObj [(''review_issue_number'', JInt 2),
                           (''issue_severity'', JStr ''blocker'')],
                     finding_doc 3 ''no CSV header'' ''write the header'' ''blocker''])"
    by (simp_all add: two_blocker_doc_def gap_doc_def)
  have first: "snd (review_main (run_env \<lparr>resp_output = two_blocker_review, success = True\<rparr> [])
          skip_argv) = 1
   \<and> filter is_patch_call
        (fst (review_main (run_env \<lparr>resp_output = two_blocker_review, success = True\<rparr> [])
                skip_argv)) = []
   \<and> filter is_save
        (fst (review_main (run_env \<lparr>resp_output = two_blocker_review, success = True\<rparr> [])
                skip_argv)) = []
   \<and> filter is_error_log
        (fst (review_main (run_env \<lparr>resp_output = two_blocker_review, success = True\<rparr> [])
                skip_argv))
      = [Log ERROR ''Found 2 blocking issues (resolution skipped)'',
         Log ERROR ''  - no export button'',
         Log ERROR ''  - no CSV header'']"
    using skipped_resolution_aborts_and_reports_blockers
          [where E = "run_env \<lparr>resp_output = two_blocker_review, success = True\<rparr> []"
             and argv = skip_argv and adw = "''abc12345''" and st = run_state
             and sf = "''specs/plan-42.md''" and out = two_blocker_review
             and kvs = two_blocker_doc
             and issues = "[finding_doc 1 ''no export button'' ''add the button'' ''blocker'',
                            finding_doc 2 ''uneven spacing'' ''align columns'' ''tech_debt'',
                            finding_doc 3 ''no CSV header'' ''write the header'' ''blocker'']"]
    by (simp add: skip_argv_facts run_env_sel run_state_fields two_blocker_parsed
        k d finding_doc_fields digits)
  have second: "snd (review_main (run_env \<lparr>resp_output = gap_review, success = True\<rparr> [])
            skip_argv) = 1
   \<and> last (fst (review_main (run_env \<lparr>resp_output = gap_review, success = True\<rparr> [])
                   skip_argv)) = Uncaught (KeyError ''issue_description'')"
    using skipped_resolution_aborts_and_reports_blockers
          [where E = "run_env \<lparr>resp_output = gap_review, success = True\<rparr> []"
             and argv = skip_argv and adw = "''abc12345''" and st = run_state
             and sf = "''specs/plan-42.md''" and out = gap_review
             and kvs = gap_doc
             and issues = "[finding_doc 1 ''no export button'' ''add the button'' ''blocker'',
                            JObj [(''review_issue_number'', JInt 2),
                                  (''issue_severity'', JStr ''blocker'')],
                            finding_doc 3 ''no CSV header'' ''write the header'' ''blocker'']"]
    by (simp add: skip_argv_facts run_env_sel run_state_fields gap_parsed
        k d finding_doc_fields digits)
  from first second show ?thesis by simp
qed

text \<open>
  Claim C1 as stated fails: of three blocking findings the second has no description;
  the run logs the count and the first description, ends with a \<open>KeyError\<close>, and the
  description of the third blocking finding is never logged.
\<close>

theorem skipped_resolution_stops_at_missing_description_counterexample:
  "filter is_blocker
     [finding_doc 1 ''no export button'' ''add the button'' ''blocker'',
      JObj [(''review_issue_number'', JInt 2), (''issue_severity'', JStr ''blocker'')],
      finding_doc 3 ''no CSV header'' ''write the header'' ''blocker'']
     = [finding_doc 1 ''no export button'' ''add the button'' ''blocker'',
        JObj [(''review_issue_number'', JInt 2), (''issue_severity'', JStr ''blocker'')],
        finding_doc 3 ''no CSV header'' ''write the header'' ''blocker'']
   \<and> json_loads_plain (review_extract gap_review) = Some (JObj gap_doc)
   \<and> filter is_error_log
        (fst (review_main (run_env \<lparr>resp_output = gap_review, success = True\<rparr> [])
                skip_argv))
      = [Log ERROR ''Found 3 blocking issues (resolution skipped)'',
         Log ERROR ''  - no export button'']
   \<and> Log ERROR ''  - no CSV header''
      \<notin> set (fst (review_main (run_env \<lparr>resp_output = gap_review, success = True\<rparr> [])
                     skip_argv))
   \<and> last (fst (review_main (run_env \<lparr>resp_output = gap_review, success = True\<rparr> [])
                   skip_argv)) = Uncaught (KeyError ''issue_description'')
   \<and> snd (review_main (run_env \<lparr>resp_output = gap_review, success = True\<rparr> [])
            skip_argv) = 1"
  by (simp add: gap_parsed review_main_def review_phase_def review_results_body_def
      handle_blocking_def blocking_issues_of_def json_iter_def json_get_def gap_doc_def
      skip_argv_facts run_env_sel run_state_fields finding_doc_def is_blocker_def
      issue_item_def dict_item_def fmt_json_def Let_def truthy_opt_def digits)

subsection \<open>Resolution enabled\<close>

text \<open>
  Claim C3, as amended. With resolution enabled the patch calls of a review invocation
  are, in the order received, the calls for an initial stretch of the blocking findings,
  one call each, and the review template is executed exactly once. When every blocker is
  complete and every patch succeeds the stretch is the whole list, the state is saved and
  the exit status is 0.
\<close>

theorem resolution_patches_blockers_in_order_until_a_failure:
  assumes "''--skip-resolution'' \<notin> set argv"
    and "3 \<le> length argv"
    and "argv ! 2 = adw"
    and "load E adw = Some st" and "fst (validate_worktree E adw st)"
    and "find_spec_file E st = Some sf" and "sf \<noteq> []"
    and "execute_template E (review_request adw sf (st_worktree_path st))
           = \<lparr>resp_output = out, success = True\<rparr>"
    and "json_loads E (review_extract out) = Inr (JObj kvs)"
    and "blocking_issues_of kvs = Inr bs"
  shows "prefix (filter is_patch_call (fst (review_main E argv)))
                (map (\<lambda>b. CreatePatch (finding_request adw sf (st_worktree_path st) b)) bs)
       \<and> filter is_template_call (fst (review_main E argv))
           = [ExecuteTemplate (review_request adw sf (st_worktree_path st))]
       \<and> ((\<forall>b\<in>set bs. complete_finding b)
           \<and> (\<forall>i<length bs. success (snd (create_and_implement_patch E i
                  (finding_request adw sf (st_worktree_path st) (bs ! i))))) \<longrightarrow>
            filter is_patch_call (fst (review_main E argv))
              = map (\<lambda>b. CreatePatch (finding_request adw sf (st_worktree_path st) b)) bs
            \<and> snd (review_main E argv) = 0
            \<and> Save ''adw_review_iso'' st \<in> set (fst (review_main E argv)))"
proof -
  have m: "review_main E argv = review_phase E False adw"
    using assms(1,2,3) by (simp add: review_main_phase remove_flag_def)
  note pc = review_patch_calls [OF assms(4-10), of False]
  have a: "prefix (filter is_patch_call (fst (review_main E argv)))
                (map (\<lambda>b. CreatePatch (finding_request adw sf (st_worktree_path st) b)) bs)"
    unfolding m pc by (simp add: handle_resolving resolve_calls_prefix)
  have b: "filter is_template_call (fst (review_main E argv))
           = [ExecuteTemplate (review_request adw sf (st_worktree_path st))]"
    unfolding m by (rule review_template_once [OF assms(4-10)])
  have c: "filter is_patch_call (fst (review_main E argv))
              = map (\<lambda>b. CreatePatch (finding_request adw sf (st_worktree_path st) b)) bs
            \<and> snd (review_main E argv) = 0
            \<and> Save ''adw_review_iso'' st \<in> set (fst (review_main E argv))"
    if w: "\<forall>b\<in>set bs. complete_finding b"
      and s: "\<forall>i<length bs. success (snd (create_and_implement_patch E i
                  (finding_request adw sf (st_worktree_path st) (bs ! i))))"
  proof -
    from s have s': "\<forall>i<length bs. success (snd (create_and_implement_patch E (0 + i)
                  (finding_request adw sf (st_worktree_path st) (bs ! i))))"
      by simp
    note r = resolve_all [OF w s']
    have h: "snd (handle_blocking E False adw sf (st_worktree_path st) bs) = None"
      using r by (simp add: handle_resolving)
    note fin = review_finished [OF assms(4-10) h]
    show ?thesis
      unfolding m using fin r by (simp add: handle_resolving)
  qed
  from a b c show ?thesis by blast
qed

theorem resolution_patches_blockers_in_order_until_a_failure_witness:
  "filter is_patch_call
     (fst (review_main
             (run_env \<lparr>resp_output = two_blocker_review, success = True\<rparr> [patched, patched])
             (run_argv ''adw_review_iso.py'')))
     = [CreatePatch (finding_request ''abc12345'' ''specs/plan-42.md'' (Some ''trees/abc12345'')
          (finding_doc 1 ''no export button'' ''add the button'' ''blocker'')),
        CreatePatch (finding_request ''abc12345'' ''specs/plan-42.md'' (Some ''trees/abc12345'')
          (finding_doc 3 ''no CSV header'' ''write the header'' ''blocker''))]
   \<and> filter is_template_call
        (fst (review_main
                (run_env \<lparr>resp_output = two_blocker_review, success = True\<rparr>
                   [patched, patched])
                (run_argv ''adw_review_iso.py'')))
      = [ExecuteTemplate (review_request ''abc12345'' ''specs/plan-42.md''
                            (Some ''trees/abc12345''))]
   \<and> snd (review_main
             (run_env \<lparr>resp_output = two_blocker_review, success = True\<rparr> [patched, patched])
             (run_argv ''adw_review_iso.py'')) = 0
   \<and> Save ''adw_review_iso'' run_state
      \<in> set (fst (review_main
             (run_env \<lparr>resp_output = two_blocker_review, success = True\<rparr> [patched, patched])
             (run_argv ''adw_review_iso.py'')))"
  using resolution_patches_blockers_in_order_until_a_failure
          [where E = "run_env \<lparr>resp_output = two_blocker_review, success = True\<rparr>
                        [patched, patched]"
             and argv = "run_argv ''adw_review_iso.py''" and adw = "''abc12345''"
             and st = run_state and sf = "''specs/plan-42.md''" and out = two_blocker_review
             and kvs = two_blocker_doc
             and bs = "[finding_doc 1 ''no export button'' ''add the button'' ''blocker'',
                        finding_doc 3 ''no CSV header'' ''write the header'' ''blocker'']"]
  by (simp add: run_argv_plain run_env_sel run_state_fields two_blocker_parsed
      blockers_of_docs finding_doc_fields run_env_patch patched_def less_Suc_eq
      nth_Cons')

text \<open>
  Claim C3 as stated fails: of two blocking findings only the first gets a patch call
  when its patch does not apply, and the phase exits with status 1.
\<close>

theorem resolution_stops_at_failed_patch_counterexample:
  "blocking_issues_of two_blocker_doc
     = Inr [finding_doc 1 ''no export button'' ''add the button'' ''blocker'',
            finding_doc 3 ''no CSV header'' ''write the header'' ''blocker'']
   \<and> json_loads_plain (review_extract two_blocker_review) = Some (JObj two_blocker_doc)
   \<and> filter is_patch_call
        (fst (review_main
                (run_env \<lparr>resp_output = two_blocker_review, success = True\<rparr> [not_patched])
                (run_argv ''adw_review_iso.py'')))
      = [CreatePatch (finding_request ''abc12345'' ''specs/plan-42.md'' (Some ''trees/abc12345'')
           (finding_doc 1 ''no export button'' ''add the button'' ''blocker''))]
   \<and> snd (review_main
             (run_env \<lparr>resp_output = two_blocker_review, success = True\<rparr> [not_patched])
             (run_argv ''adw_review_iso.py'')) = 1"
  by (simp add: blockers_of_docs two_blocker_parsed review_main_def review_phase_def
      review_results_body_def handle_blocking_def run_argv_plain run_env_sel run_state_fields
      run_env_patch not_patched_def finding_doc_fields finding_request_def Let_def
      truthy_opt_def)

subsection \<open>A patch that fails\<close>

text \<open>
  Claim C8, as amended. When the patch of a blocking finding fails, the earlier ones
  having succeeded, the review phase exits with status 1 and saves nothing. Its trace
  ends with the info line that names the finding and its description, the patch call and
  one error line, the only one of the run, which carries the output of the failed patch
  call. The patch calls made are those for the findings up to the failed one; nothing
  follows the error line, so no earlier patch is undone.
\<close>

theorem failed_patch_stops_the_review_after_its_error_line:
  assumes "''--skip-resolution'' \<notin> set argv"
    and "3 \<le> length argv"
    and "argv ! 2 = adw"
    and "load E adw = Some st" and "fst (validate_worktree E adw st)"
    and "find_spec_file E st = Some sf" and "sf \<noteq> []"
    and "execute_template E (review_request adw sf (st_worktree_path st))
           = \<lparr>resp_output = out, success = True\<rparr>"
    and "json_loads E (review_extract out) = Inr (JObj kvs)"
    and "blocking_issues_of kvs = Inr bs"
    and "k < length bs"
    and "\<forall>i\<le>k. complete_finding (bs ! i)"
    and "\<forall>i<k. success (snd (create_and_implement_patch E i
                  (finding_request adw sf (st_worktree_path st) (bs ! i))))"
    and "\<not> success (snd (create_and_implement_patch E k
                  (finding_request adw sf (st_worktree_path st) (bs ! k))))"
  shows "snd (review_main E argv) = 1
       \<and> suffix [Log INFO (''Resolving issue ''
                    @ finding_field E (bs ! k) ''review_issue_number''
                    @ '': '' @ finding_field E (bs ! k) ''issue_description''),
                 CreatePatch (finding_request adw sf (st_worktree_path st) (bs ! k)),
                 Log ERROR (''Failed to resolve issue: ''
                    @ resp_output (snd (create_and_implement_patch E k
                        (finding_request adw sf (st_worktree_path st) (bs ! k)))))]
                (fst (review_main E argv))
       \<and> filter is_error_log (fst (review_main E argv))
           = [Log ERROR (''Failed to resolve issue: ''
                @ resp_output (snd (create_and_implement_patch E k
                    (finding_request adw sf (st_worktree_path st) (bs ! k)))))]
       \<and> filter is_patch_call (fst (review_main E argv))
           = map (\<lambda>b. CreatePatch (finding_request adw sf (st_worktree_path st) b))
               (take (Suc k) bs)
       \<and> filter is_save (fst (review_main E argv)) = []"
proof -
  have m: "review_main E argv = review_phase E False adw"
    using assms(1,2,3) by (simp add: review_main_phase remove_flag_def)
  have ne: "bs \<noteq> []" using assms(11) by auto
  from assms(13) have s': "\<forall>i<k. success (snd (create_and_implement_patch E (0 + i)
                  (finding_request adw sf (st_worktree_path st) (bs ! i))))"
    by simp
  from assms(14) have f': "\<not> success (snd (create_and_implement_patch E (0 + k)
                  (finding_request adw sf (st_worktree_path st) (bs ! k))))"
    by simp
  note r = resolve_first_failure [OF assms(11,12) s' f']
  have h: "snd (handle_blocking E False adw sf (st_worktree_path st) bs) = Some 1"
    using r ne by (simp add: handle_resolving)
  note p = review_stopped [OF assms(4-10) h]
  have hd: "fst (handle_blocking E False adw sf (st_worktree_path st) bs)
              = Log WARNING (''Found '' @ show_nat (length bs)
                              @ '' blocking issues, attempting resolution'')
                # fst (resolve_issues E adw sf (st_worktree_path st) 0 bs)"
    using ne by (simp add: handle_resolving)
  have c1: "snd (review_main E argv) = 1"
    unfolding m p by simp
  have c2: "suffix [Log INFO (''Resolving issue ''
                    @ finding_field E (bs ! k) ''review_issue_number''
                    @ '': '' @ finding_field E (bs ! k) ''issue_description''),
                 CreatePatch (finding_request adw sf (st_worktree_path st) (bs ! k)),
                 Log ERROR (''Failed to resolve issue: ''
                    @ resp_output (snd (create_and_implement_patch E k
                        (finding_request adw sf (st_worktree_path st) (bs ! k)))))]
                (fst (review_main E argv))"
    unfolding m p fst_conv hd
    using r by (intro suffix_appendI suffix_ConsI) simp
  have c3: "filter is_error_log (fst (review_main E argv))
           = [Log ERROR (''Failed to resolve issue: ''
                @ resp_output (snd (create_and_implement_patch E k
                    (finding_request adw sf (st_worktree_path st) (bs ! k)))))]"
    unfolding m p fst_conv hd using r by simp
  have c4: "filter is_patch_call (fst (review_main E argv))
           = map (\<lambda>b. CreatePatch (finding_request adw sf (st_worktree_path st) b))
               (take (Suc k) bs)"
    unfolding m p fst_conv hd using r by simp
  have c5: "filter is_save (fst (review_main E argv)) = []"
    unfolding m p fst_conv hd by (simp add: resolve_no_save)
  from c1 c2 c3 c4 c5 show ?thesis by (intro conjI)
qed

theorem failed_patch_stops_the_review_after_its_error_line_witness:
  "snd (review_main
          (run_env \<lparr>resp_output = two_blocker_review, success = True\<rparr> [patched, not_patched])
          (run_argv ''adw_review_iso.py'')) = 1
   \<and> suffix [Log INFO ''Resolving issue 3: no CSV header'',
              CreatePatch (finding_request ''abc12345'' ''specs/plan-42.md''
                (Some ''trees/abc12345'')
                (finding_doc 3 ''no CSV header'' ''write the header'' ''blocker'')),
              Log ERROR ''Failed to resolve issue: patch did not apply'']
        (fst (review_main
                (run_env \<lparr>resp_output = two_blocker_review, success = True\<rparr>
                   [patched, not_patched])
                (run_argv ''adw_review_iso.py'')))
   \<and> filter is_patch_call
        (fst (review_main
                (run_env \<lparr>resp_output = two_blocker_review, success = True\<rparr>
                   [patched, not_patched])
                (run_argv ''adw_review_iso.py'')))
      = [CreatePatch (finding_request ''abc12345'' ''specs/plan-42.md'' (Some ''trees/abc12345'')
           (finding_doc 1 ''no export button'' ''add the button'' ''blocker'')),
         CreatePatch (finding_request ''abc12345'' ''specs/plan-42.md'' (Some ''trees/abc12345'')
           (finding_doc 3 ''no CSV header'' ''write the header'' ''blocker''))]
   \<and> filter is_save
        (fst (review_main
                (run_env \<lparr>resp_output = two_blocker_review, success = True\<rparr>
                   [patched, not_patched])
                (run_argv ''adw_review_iso.py''))) = []"
  using failed_patch_stops_the_review_after_its_error_line
          [where E = "run_env \<lparr>resp_output = two_blocker_review, success = True\<rparr>
                        [patched, not_patched]"
             and argv = "run_argv ''adw_review_iso.py''" and adw = "''abc12345''"
             and st = run_state and sf = "''specs/plan-42.md''" and out = two_blocker_review
             and kvs = two_blocker_doc
             and bs = "[finding_doc 1 ''no export button'' ''add the button'' ''blocker'',
                        finding_doc 3 ''no CSV header'' ''write the header'' ''blocker'']"
             and k = 1]
  by (simp add: run_argv_plain run_env_sel run_state_fields two_blocker_parsed
      blockers_of_docs finding_doc_fields run_env_patch patched_def not_patched_def
      le_Suc_eq digits)

text \<open>
  Claim C8 as stated fails: the error line of the failure carries the output of the
  patch call, not the description of the finding.
\<close>

theorem failed_patch_error_line_lacks_description_counterexample:
  "filter is_error_log
     (fst (review_main
             (run_env \<lparr>resp_output = two_blocker_review, success = True\<rparr>
                [patched, not_patched])
             (run_argv ''adw_review_iso.py'')))
     = [Log ERROR ''Failed to resolve issue: patch did not apply'']
   \<and> \<not> py_in ''no CSV header'' ''Failed to resolve issue: patch did not apply''
   \<and> snd (review_main
             (run_env \<lparr>resp_output = two_blocker_review, success = True\<rparr>
                [patched, not_patched])
             (run_argv ''adw_review_iso.py'')) = 1"
  by (simp add: blockers_of_docs two_blocker_parsed review_main_def review_phase_def
      review_results_body_def handle_blocking_def run_argv_plain run_env_sel run_state_fields
      run_env_patch patched_def not_patched_def finding_doc_fields Let_def
      truthy_opt_def py_in_def)

end
